theory Spec2Isabelle
  imports Complex_Main "HOL-Library.AList"
begin

section \<open>JavaScript values\<close>

text \<open>
  The handler of \<^verbatim>\<open>api/gemini.js\<close> reads the request body and the provider's parsed
  answer as plain JavaScript values and decides by their truthiness. A number is a
  double: not-a-number, an infinity (with its sign) or a finite value. An object is the
  list of its own properties in insertion order; a property is read with \<open>map_of\<close>.
\<close>

datatype jsnum = NaN | Infinity bool | Finite rat

datatype jsval =
    Undefined
  | Null
  | Bool bool
  | Num jsnum
  | Str string
  | Arr "jsval list"
  | Obj "(string \<times> jsval) list"

text \<open>ToBoolean: the value an \<^verbatim>\<open>if\<close>, a \<^verbatim>\<open>!\<close> or a \<^verbatim>\<open>&&\<close> tests.\<close>

fun truthy :: "jsval \<Rightarrow> bool" where
  "truthy Undefined = False"
| "truthy Null = False"
| "truthy (Bool b) = b"
| "truthy (Num NaN) = False"
| "truthy (Num (Infinity s)) = True"
| "truthy (Num (Finite q)) = (q \<noteq> 0)"
| "truthy (Str s) = (s \<noteq> [])"
| "truthy (Arr xs) = True"
| "truthy (Obj ps) = True"

definition nullish :: "jsval \<Rightarrow> bool" where
  "nullish v = (v = Undefined \<or> v = Null)"

subsection \<open>Exceptions\<close>

text \<open>
  The engine throws a TypeError when a property of \<^verbatim>\<open>undefined\<close> or \<^verbatim>\<open>null\<close> is read,
  when such a value is destructured, and when a value that is not a function is called.
  A promise of the platform (\<^verbatim>\<open>fetch\<close>, \<^verbatim>\<open>text()\<close>, \<^verbatim>\<open>json()\<close>) rejects with an error
  that carries its message. The wording of the engine's own messages is not part of the
  source, so the handler takes it as a parameter \<open>describe\<close>.
\<close>

datatype type_error =
    Cannot_read string jsval
  | Cannot_destructure jsval
  | Not_a_function string

datatype exn = TypeError type_error | Rejected string

definition message :: "(type_error \<Rightarrow> string) \<Rightarrow> exn \<Rightarrow> string" where
  "message describe e = (case e of TypeError t \<Rightarrow> describe t | Rejected m \<Rightarrow> m)"

definition seq :: "exn + 'a \<Rightarrow> ('a \<Rightarrow> exn + 'b) \<Rightarrow> exn + 'b" where
  "seq m f = (case m of Inl e \<Rightarrow> Inl e | Inr x \<Rightarrow> f x)"

subsection \<open>Property reads\<close>

text \<open>
  \<open>member v k\<close> is \<^verbatim>\<open>v.k\<close> for a receiver that is neither \<^verbatim>\<open>undefined\<close> nor \<^verbatim>\<open>null\<close>,
  for the property names the handler reads from data (none of them is a built-in of
  String, Array, Number or Boolean): an object gives its own property, every other
  receiver gives \<^verbatim>\<open>undefined\<close>. \<open>index0 v\<close> is \<^verbatim>\<open>v[0]\<close>: the first element of an array,
  the first character of a string, the property \<^verbatim>\<open>"0"\<close> of an object.
\<close>

fun member :: "jsval \<Rightarrow> string \<Rightarrow> jsval" where
  "member (Obj ps) k = (case map_of ps k of None \<Rightarrow> Undefined | Some v \<Rightarrow> v)"
| "member v k = Undefined"

fun index0 :: "jsval \<Rightarrow> jsval" where
  "index0 (Arr xs) = (case xs of [] \<Rightarrow> Undefined | x # rest \<Rightarrow> x)"
| "index0 (Str s) = (case s of [] \<Rightarrow> Undefined | c # rest \<Rightarrow> Str [c])"
| "index0 (Obj ps) = member (Obj ps) ''0''"
| "index0 v = Undefined"

text \<open>\<^verbatim>\<open>v.k\<close> and \<^verbatim>\<open>v[0]\<close>: a TypeError on \<^verbatim>\<open>undefined\<close> and \<^verbatim>\<open>null\<close>.\<close>

definition get :: "jsval \<Rightarrow> string \<Rightarrow> exn + jsval" where
  "get v k = (if nullish v then Inl (TypeError (Cannot_read k v)) else Inr (member v k))"

definition get_index0 :: "jsval \<Rightarrow> exn + jsval" where
  "get_index0 v = (if nullish v then Inl (TypeError (Cannot_read ''0'' v)) else Inr (index0 v))"

text \<open>\<^verbatim>\<open>v?.k\<close> and \<^verbatim>\<open>v?.[0]\<close>: \<^verbatim>\<open>undefined\<close> on \<^verbatim>\<open>undefined\<close> and \<^verbatim>\<open>null\<close>.\<close>

definition opt :: "jsval \<Rightarrow> string \<Rightarrow> jsval" where
  "opt v k = (if nullish v then Undefined else member v k)"

definition opt_index0 :: "jsval \<Rightarrow> jsval" where
  "opt_index0 v = (if nullish v then Undefined else index0 v)"

text \<open>\<^verbatim>\<open>o.k = v\<close> on an object: an existing property keeps its place, a new one goes last.\<close>

fun assign :: "jsval \<Rightarrow> string \<Rightarrow> jsval \<Rightarrow> jsval" where
  "assign (Obj ps) k v = Obj (AList.update k v ps)"
| "assign w k v = w"

text \<open>
  \<^verbatim>\<open>xs.map(f)\<close>: the elements in order, stopping at the first one on which \<open>f\<close> throws.
  Only an array has the method; on any other value that is not \<^verbatim>\<open>undefined\<close> or \<^verbatim>\<open>null\<close>
  the call is a TypeError.
\<close>

fun map_exn :: "('a \<Rightarrow> exn + 'b) \<Rightarrow> 'a list \<Rightarrow> exn + 'b list" where
  "map_exn f [] = Inr []"
| "map_exn f (x # xs) =
     (case f x of
        Inl e \<Rightarrow> Inl e
      | Inr y \<Rightarrow> (case map_exn f xs of Inl e \<Rightarrow> Inl e | Inr ys \<Rightarrow> Inr (y # ys)))"

definition array_map :: "jsval \<Rightarrow> (jsval \<Rightarrow> exn + jsval) \<Rightarrow> exn + jsval list" where
  "array_map v f =
     (if nullish v then Inl (TypeError (Cannot_read ''map'' v))
      else case v of
        Arr xs \<Rightarrow> map_exn f xs
      | _ \<Rightarrow> Inl (TypeError (Not_a_function ''map'')))"

section \<open>The relay handler\<close>

subsection \<open>Requests, the provider and responses\<close>

text \<open>
  The inbound request has a method and a parsed body (\<^verbatim>\<open>undefined\<close> when none was
  sent). The process environment holds the secret, a string when it is set. \<^verbatim>\<open>fetch\<close> is
  the platform's: given the URL and the request it rejects or answers with a response
  whose \<^verbatim>\<open>ok\<close> flag is that of the Fetch standard (a status from 200 to 299), and whose
  body is read as text or as parsed JSON, either of which may reject.
\<close>

record request =
  req_method :: string
  req_body :: jsval

record process_env =
  GEMINI_API_KEY :: "string option"

datatype json_text = JSON_stringify jsval

record fetch_init =
  init_method :: string
  init_headers :: "(string \<times> string) list"
  init_body :: json_text

record provider_response =
  status :: nat
  read_text :: "exn + string"
  read_json :: "exn + jsval"

definition ok :: "provider_response \<Rightarrow> bool" where
  "ok r = (200 \<le> status r \<and> status r \<le> 299)"

type_synonym fetch = "string \<Rightarrow> fetch_init \<Rightarrow> exn + provider_response"

text \<open>
  What one run of the handler does: it sends one response (\<^verbatim>\<open>res.status(n).json(b)\<close>) or
  an exception leaves it, and it has made the outbound calls listed in \<open>calls\<close>. The
  lines written with \<^verbatim>\<open>console.error\<close> go to the operational log, not to the caller, and
  are left out.
\<close>

record http_response =
  status_code :: nat
  json_body :: jsval

datatype outcome = Responded http_response | Threw exn

record result =
  outcome :: outcome
  calls :: "(string \<times> fetch_init) list"

definition send :: "nat \<Rightarrow> jsval \<Rightarrow> http_response" where
  "send code b = \<lparr>status_code = code, json_body = b\<rparr>"

definition error_body :: "string \<Rightarrow> jsval" where
  "error_body msg = Obj [(''error'', Str msg)]"

definition googleApiUrl :: "string \<Rightarrow> string" where
  "googleApiUrl apiKey =
     ''https://generativelanguage.googleapis.com/v1beta/models/gemini-2.5-flash-preview-09-2025:generateContent?key='' @ apiKey"

subsection \<open>Step 4: the payload\<close>

definition build_payload :: "jsval \<Rightarrow> jsval \<Rightarrow> jsval \<Rightarrow> jsval" where
  "build_payload userQuery systemPrompt useGrounding =
     (let payload = Obj [(''contents'', Arr [Obj [(''parts'', Arr [Obj [(''text'', userQuery)]])]])];
          payload = (if truthy useGrounding
                     then assign payload ''tools'' (Arr [Obj [(''google_search'', Obj [])]])
                     else payload);
          payload = (if truthy systemPrompt
                     then assign payload ''systemInstruction''
                            (Obj [(''parts'', Arr [Obj [(''text'', systemPrompt)]])])
                     else payload)
      in payload)"

subsection \<open>Step 6: text and sources of the first candidate\<close>

text \<open>The arrow function of \<^verbatim>\<open>map\<close> (it reads \<^verbatim>\<open>attribution.web\<close> once for each field).\<close>

definition to_source :: "jsval \<Rightarrow> exn + jsval" where
  "to_source attribution =
     seq (get attribution ''web'') (\<lambda>web_uri.
     seq (get attribution ''web'') (\<lambda>web_title.
       Inr (Obj [(''uri'', opt web_uri ''uri''), (''title'', opt web_title ''title'')])))"

text \<open>The arrow function of \<^verbatim>\<open>filter\<close>: \<^verbatim>\<open>source.uri && source.title\<close>, as a boolean.\<close>

definition complete :: "jsval \<Rightarrow> bool" where
  "complete source = (truthy (member source ''uri'') \<and> truthy (member source ''title''))"

definition grounding_sources :: "jsval \<Rightarrow> exn + jsval list" where
  "grounding_sources candidate =
     seq (get candidate ''groundingMetadata'') (\<lambda>groundingMetadata.
       if truthy groundingMetadata then
         seq (get groundingMetadata ''groundingAttributions'') (\<lambda>tested.
           if truthy tested then
             seq (get groundingMetadata ''groundingAttributions'') (\<lambda>groundingAttributions.
             seq (array_map groundingAttributions to_source) (\<lambda>mapped.
               Inr (filter complete mapped)))
           else Inr [])
       else Inr [])"

text \<open>
  The test \<^verbatim>\<open>candidate && candidate.content?.parts?.[0]?.text\<close>: the value of the \<^verbatim>\<open>&&\<close>,
  whose right operand is only evaluated for a truthy candidate.
\<close>

definition candidate_text :: "jsval \<Rightarrow> exn + jsval" where
  "candidate_text candidate =
     (if truthy candidate
      then seq (get candidate ''content'') (\<lambda>content.
             Inr (opt (opt_index0 (opt content ''parts'')) ''text''))
      else Inr candidate)"

text \<open>Lines 69 to 90: the response for a parsed body \<open>result\<close>.\<close>

definition respond_to_result :: "jsval \<Rightarrow> exn + http_response" where
  "respond_to_result result =
     seq (get result ''candidates'') (\<lambda>candidates.
       let candidate = opt_index0 candidates in
       seq (candidate_text candidate) (\<lambda>tested.
         if truthy tested then
           seq (get candidate ''content'') (\<lambda>content.
           seq (get content ''parts'') (\<lambda>parts.
           seq (get_index0 parts) (\<lambda>part.
           seq (get part ''text'') (\<lambda>text.
           seq (grounding_sources candidate) (\<lambda>sources.
             Inr (send 200 (Obj [(''text'', text), (''sources'', Arr sources)])))))))
         else Inr (send 500 (error_body ''The API returned an unexpected response.''))))"

text \<open>Lines 52 to 90: the body of the \<^verbatim>\<open>try\<close> block.\<close>

definition try_block :: "fetch \<Rightarrow> string \<Rightarrow> fetch_init \<Rightarrow> exn + http_response" where
  "try_block fetch url init =
     seq (fetch url init) (\<lambda>googleResponse.
       if \<not> ok googleResponse then
         seq (read_text googleResponse) (\<lambda>errorBody.
           Inr (send (status googleResponse) (error_body (''Google API Error: '' @ errorBody))))
       else
         seq (read_json googleResponse) (\<lambda>result. respond_to_result result))"

subsection \<open>The handler\<close>

definition handler :: "(type_error \<Rightarrow> string) \<Rightarrow> process_env \<Rightarrow> fetch \<Rightarrow> request \<Rightarrow> result" where
  "handler describe env fetch req =
     (if req_method req \<noteq> ''POST'' then
        \<lparr>outcome = Responded (send 405 (error_body ''Method Not Allowed'')), calls = []\<rparr>
      else case GEMINI_API_KEY env of
        None \<Rightarrow>
          \<lparr>outcome = Responded (send 500 (error_body ''API key is not configured on the server.'')),
           calls = []\<rparr>
      | Some apiKey \<Rightarrow>
          if apiKey = [] then
            \<lparr>outcome = Responded (send 500 (error_body ''API key is not configured on the server.'')),
             calls = []\<rparr>
          else if nullish (req_body req) then
            \<lparr>outcome = Threw (TypeError (Cannot_destructure (req_body req))), calls = []\<rparr>
          else
            let userQuery = member (req_body req) ''userQuery'';
                systemPrompt = member (req_body req) ''systemPrompt'';
                useGrounding = member (req_body req) ''useGrounding''
            in
              if \<not> truthy userQuery then
                \<lparr>outcome = Responded (send 400 (error_body ''userQuery is required.'')), calls = []\<rparr>
              else
                let payload = build_payload userQuery systemPrompt useGrounding;
                    init = \<lparr>init_method = ''POST'',
                            init_headers = [(''Content-Type'', ''application/json'')],
                            init_body = JSON_stringify payload\<rparr>
                in
                  \<lparr>outcome =
                     (case try_block fetch (googleApiUrl apiKey) init of
                        Inl error \<Rightarrow>
                          Responded (send 500 (error_body (''Server error: '' @ message describe error)))
                      | Inr response \<Rightarrow> Responded response),
                   calls = [(googleApiUrl apiKey, init)]\<rparr>)"

section \<open>The vocabulary of the specification\<close>

text \<open>
  The specification speaks of the structural path \<^verbatim>\<open>candidates[0].content.parts[0].text\<close>
  of the parsed body, of the grounding attributions of the first candidate and of the
  web citation \<^verbatim>\<open>{uri, title}\<close> of an attribution. Each is the value found by walking the
  path, \<^verbatim>\<open>undefined\<close> as soon as a step is missing.
\<close>

definition first_candidate :: "jsval \<Rightarrow> jsval" where
  "first_candidate result = opt_index0 (opt result ''candidates'')"

definition text_path :: "jsval \<Rightarrow> jsval" where
  "text_path result =
     opt (opt_index0 (opt (opt (first_candidate result) ''content'') ''parts'')) ''text''"

definition attributions :: "jsval \<Rightarrow> jsval" where
  "attributions result =
     opt (opt (first_candidate result) ''groundingMetadata'') ''groundingAttributions''"

definition citation :: "jsval \<Rightarrow> jsval" where
  "citation attribution =
     Obj [(''uri'', opt (opt attribution ''web'') ''uri''),
          (''title'', opt (opt attribution ''web'') ''title'')]"

definition has_property :: "jsval \<Rightarrow> string \<Rightarrow> bool" where
  "has_property v k = (case v of Obj ps \<Rightarrow> map_of ps k \<noteq> None | _ \<Rightarrow> False)"

section \<open>Basic facts about the reads\<close>

lemma seq_Inl [simp]: "seq (Inl e) f = Inl e"
  by (simp add: seq_def)

lemma seq_Inr [simp]: "seq (Inr x) f = f x"
  by (simp add: seq_def)

lemma truthy_not_nullish: "truthy v \<Longrightarrow> \<not> nullish v"
  by (auto simp: nullish_def)

lemma get_present [simp]: "\<not> nullish v \<Longrightarrow> get v k = Inr (member v k)"
  by (simp add: get_def)

lemma get_index0_present [simp]: "\<not> nullish v \<Longrightarrow> get_index0 v = Inr (index0 v)"
  by (simp add: get_index0_def)

lemma opt_present [simp]: "\<not> nullish v \<Longrightarrow> opt v k = member v k"
  by (simp add: opt_def)

lemma opt_index0_present [simp]: "\<not> nullish v \<Longrightarrow> opt_index0 v = index0 v"
  by (simp add: opt_index0_def)

lemma opt_falsy: "\<not> truthy v \<Longrightarrow> opt v k = Undefined"
  by (cases v) (simp_all add: opt_def nullish_def)

lemma truthy_opt: "truthy (opt v k) \<Longrightarrow> \<not> nullish v"
  by (auto simp: opt_def)

lemma truthy_opt_index0: "truthy (opt_index0 v) \<Longrightarrow> \<not> nullish v"
  by (auto simp: opt_index0_def)

lemma respond_to_result_unfold:
  assumes "\<not> nullish result"
  shows "respond_to_result result =
    seq (candidate_text (first_candidate result)) (\<lambda>tested.
      if truthy tested then
        seq (get (first_candidate result) ''content'') (\<lambda>content.
        seq (get content ''parts'') (\<lambda>parts.
        seq (get_index0 parts) (\<lambda>part.
        seq (get part ''text'') (\<lambda>text.
        seq (grounding_sources (first_candidate result)) (\<lambda>sources.
          Inr (send 200 (Obj [(''text'', text), (''sources'', Arr sources)])))))))
      else Inr (send 500 (error_body ''The API returned an unexpected response.'')))"
  using assms by (simp add: respond_to_result_def first_candidate_def Let_def cong: if_cong)

lemma respond_to_result_eq:
  assumes "\<not> nullish result"
  shows "respond_to_result result =
    (if truthy (text_path result)
     then seq (grounding_sources (first_candidate result)) (\<lambda>sources.
            Inr (send 200 (Obj [(''text'', text_path result), (''sources'', Arr sources)])))
     else Inr (send 500 (error_body ''The API returned an unexpected response.'')))"
proof (cases "truthy (first_candidate result)")
  case False
  then have "opt (first_candidate result) ''content'' = Undefined"
    by (rule opt_falsy)
  then have "text_path result = Undefined"
    by (simp add: text_path_def opt_def opt_index0_def nullish_def)
  with False show ?thesis
    by (simp add: respond_to_result_unfold [OF assms] candidate_text_def)
next
  case True
  then have c: "\<not> nullish (first_candidate result)"
    by (rule truthy_not_nullish)
  have tested: "candidate_text (first_candidate result) = Inr (text_path result)"
    using True c by (simp add: candidate_text_def text_path_def)
  show ?thesis
  proof (cases "truthy (text_path result)")
    case False
    with tested show ?thesis
      by (simp add: respond_to_result_unfold [OF assms])
  next
    case t: True
    then have p0: "\<not> nullish (opt_index0 (opt (opt (first_candidate result) ''content'') ''parts''))"
      unfolding text_path_def by (rule truthy_opt)
    have pnz: "opt_index0 (opt (opt (first_candidate result) ''content'') ''parts'') \<noteq> Undefined"
      using p0 by (auto simp: nullish_def)
    then have ps: "\<not> nullish (opt (opt (first_candidate result) ''content'') ''parts'')"
      by (auto simp: opt_index0_def split: if_splits)
    then have "opt (opt (first_candidate result) ''content'') ''parts'' \<noteq> Undefined"
      by (auto simp: nullish_def)
    then have ct: "\<not> nullish (opt (first_candidate result) ''content'')"
      by (auto simp: opt_def split: if_splits)
    have ct': "\<not> nullish (member (first_candidate result) ''content'')"
      using ct c by simp
    have ps': "\<not> nullish (member (member (first_candidate result) ''content'') ''parts'')"
      using ps c ct' by simp
    have p0': "\<not> nullish (index0 (member (member (first_candidate result) ''content'') ''parts''))"
      using p0 c ct' ps' by simp
    have tp: "text_path result =
        member (index0 (member (member (first_candidate result) ''content'') ''parts'')) ''text''"
      using c ct' ps' p0' by (simp add: text_path_def)
    show ?thesis
      using tested t c ct' ps' p0' tp
      by (simp add: respond_to_result_unfold [OF assms])
  qed
qed

lemma map_exn_to_source:
  "\<forall>a\<in>set as. \<not> nullish a \<Longrightarrow> map_exn to_source as = Inr (map citation as)"
  by (induction as) (simp_all add: to_source_def citation_def)

lemma grounding_sources_eq:
  assumes "\<not> nullish candidate"
  shows "grounding_sources candidate =
    (if truthy (opt (opt candidate ''groundingMetadata'') ''groundingAttributions'')
     then seq (array_map (opt (opt candidate ''groundingMetadata'') ''groundingAttributions'') to_source)
            (\<lambda>mapped. Inr (filter complete mapped))
     else Inr [])"
proof (cases "truthy (member candidate ''groundingMetadata'')")
  case False
  then have "opt (member candidate ''groundingMetadata'') ''groundingAttributions'' = Undefined"
    by (rule opt_falsy)
  with False assms show ?thesis
    by (simp add: grounding_sources_def)
next
  case True
  then have "\<not> nullish (member candidate ''groundingMetadata'')"
    by (rule truthy_not_nullish)
  with True assms show ?thesis
    by (simp add: grounding_sources_def)
qed

section \<open>The outbound call\<close>

text \<open>
  The handler calls the provider at most once, and exactly when the request passed the
  three checks and had a body to destructure. When it did, what it sends back is decided
  by the \<^verbatim>\<open>try\<close> block alone.
\<close>

lemma handler_outcome_of_call:
  assumes "calls (handler describe env fetch req) = [(url, init)]"
  shows "outcome (handler describe env fetch req) =
    (case try_block fetch url init of
       Inl error \<Rightarrow> Responded (send 500 (error_body (''Server error: '' @ message describe error)))
     | Inr response \<Rightarrow> Responded response)"
  using assms
  by (auto simp: handler_def Let_def split: if_splits option.splits)

lemma handler_calls_iff:
  "calls (handler describe env fetch req) \<noteq> [] \<longleftrightarrow>
     req_method req = ''POST'' \<and> (\<exists>apiKey. GEMINI_API_KEY env = Some apiKey \<and> apiKey \<noteq> [])
     \<and> \<not> nullish (req_body req) \<and> truthy (member (req_body req) ''userQuery'')"
  by (auto simp: handler_def Let_def split: if_splits option.splits)

section \<open>Provider errors\<close>

text \<open>
  Claim C2. When the handler made its outbound call and the provider answered it with a
  non-success status, the handler responds with exactly the provider's status code and
  the body \<^verbatim>\<open>{error: "Google API Error: <raw body text>"}\<close>, the raw body text being the
  text read from the provider's response, unchanged.
\<close>

theorem provider_error_relayed:
  assumes "calls (handler describe env fetch req) = [(url, init)]"
    and "fetch url init = Inr r"
    and "\<not> ok r"
    and "read_text r = Inr errorBody"
  shows "outcome (handler describe env fetch req) =
    Responded (send (status r) (error_body (''Google API Error: '' @ errorBody)))"
  using assms(2,3,4)
  by (simp add: handler_outcome_of_call [OF assms(1)] try_block_def)

text \<open>
  The scenario of the specification: a provider answer 429 with body \<^verbatim>\<open>rate limited\<close>
  is relayed as 429 with \<^verbatim>\<open>{error: "Google API Error: rate limited"}\<close>.
\<close>

theorem provider_error_relayed_witness:
  "calls (handler (\<lambda>t. ''TypeError'') \<lparr>GEMINI_API_KEY = Some ''secret''\<rparr>
      (\<lambda>url init. Inr \<lparr>status = 429, read_text = Inr ''rate limited'',
                        read_json = Inl (Rejected ''Unexpected token'')\<rparr>)
      \<lparr>req_method = ''POST'', req_body = Obj [(''userQuery'', Str ''hello'')]\<rparr>)
   = [(googleApiUrl ''secret'',
       \<lparr>init_method = ''POST'', init_headers = [(''Content-Type'', ''application/json'')],
        init_body = JSON_stringify
          (Obj [(''contents'', Arr [Obj [(''parts'', Arr [Obj [(''text'', Str ''hello'')]])]])])\<rparr>)]
   \<and> \<not> ok \<lparr>status = 429, read_text = Inr ''rate limited'',
             read_json = Inl (Rejected ''Unexpected token'')\<rparr>
   \<and> outcome (handler (\<lambda>t. ''TypeError'') \<lparr>GEMINI_API_KEY = Some ''secret''\<rparr>
      (\<lambda>url init. Inr \<lparr>status = 429, read_text = Inr ''rate limited'',
                        read_json = Inl (Rejected ''Unexpected token'')\<rparr>)
      \<lparr>req_method = ''POST'', req_body = Obj [(''userQuery'', Str ''hello'')]\<rparr>)
   = Responded (send 429 (error_body ''Google API Error: rate limited''))"
proof -
  let ?r = "\<lparr>status = 429, read_text = Inr ''rate limited'',
             read_json = Inl (Rejected ''Unexpected token'')\<rparr>"
  let ?h = "handler (\<lambda>t. ''TypeError'') \<lparr>GEMINI_API_KEY = Some ''secret''\<rparr>
      (\<lambda>url init. Inr ?r)
      \<lparr>req_method = ''POST'', req_body = Obj [(''userQuery'', Str ''hello'')]\<rparr>"
  let ?init = "\<lparr>init_method = ''POST'', init_headers = [(''Content-Type'', ''application/json'')],
        init_body = JSON_stringify
          (Obj [(''contents'', Arr [Obj [(''parts'', Arr [Obj [(''text'', Str ''hello'')]])]])])\<rparr>"
  have c: "calls ?h = [(googleApiUrl ''secret'', ?init)]"
    by (simp add: handler_def build_payload_def nullish_def Let_def)
  have n: "\<not> ok ?r"
    by (simp add: ok_def)
  have "outcome ?h = Responded (send (status ?r) (error_body (''Google API Error: '' @ ''rate limited'')))"
    by (rule provider_error_relayed [OF c _ n]) simp_all
  with c n show ?thesis by simp
qed

section \<open>Validation\<close>

text \<open>
  Claim C7. The three checks run in the order method, configuration, required field, and
  the first one that fails decides the response whatever the later ones would say: a
  request that is not a POST gets 405 \<^verbatim>\<open>{error: "Method Not Allowed"}\<close>; a POST without a
  configured key gets 500 \<^verbatim>\<open>{error: "API key is not configured on the server."}\<close>; a POST
  with a key and a body whose \<^verbatim>\<open>userQuery\<close> is absent or falsy gets 400
  \<^verbatim>\<open>{error: "userQuery is required."}\<close>. Whenever one of the checks fails, the provider is
  not called.
\<close>

theorem validation_order:
  "(req_method req \<noteq> ''POST'' \<longrightarrow>
      handler describe env fetch req =
        \<lparr>outcome = Responded (send 405 (error_body ''Method Not Allowed'')), calls = []\<rparr>)
   \<and> (req_method req = ''POST'' \<and> (GEMINI_API_KEY env = None \<or> GEMINI_API_KEY env = Some '''') \<longrightarrow>
      handler describe env fetch req =
        \<lparr>outcome = Responded (send 500 (error_body ''API key is not configured on the server.'')),
         calls = []\<rparr>)
   \<and> (req_method req = ''POST'' \<and> GEMINI_API_KEY env = Some apiKey \<and> apiKey \<noteq> ''''
        \<and> \<not> nullish (req_body req) \<and> \<not> truthy (member (req_body req) ''userQuery'') \<longrightarrow>
      handler describe env fetch req =
        \<lparr>outcome = Responded (send 400 (error_body ''userQuery is required.'')), calls = []\<rparr>)
   \<and> (req_method req \<noteq> ''POST'' \<or> GEMINI_API_KEY env = None \<or> GEMINI_API_KEY env = Some ''''
        \<or> \<not> truthy (opt (req_body req) ''userQuery'') \<longrightarrow>
      calls (handler describe env fetch req) = [])"
proof (intro conjI impI)
  assume "req_method req \<noteq> ''POST''"
  then show "handler describe env fetch req =
      \<lparr>outcome = Responded (send 405 (error_body ''Method Not Allowed'')), calls = []\<rparr>"
    by (simp add: handler_def)
next
  assume "req_method req = ''POST'' \<and> (GEMINI_API_KEY env = None \<or> GEMINI_API_KEY env = Some '''')"
  then show "handler describe env fetch req =
      \<lparr>outcome = Responded (send 500 (error_body ''API key is not configured on the server.'')),
       calls = []\<rparr>"
    by (auto simp: handler_def)
next
  assume "req_method req = ''POST'' \<and> GEMINI_API_KEY env = Some apiKey \<and> apiKey \<noteq> ''''
        \<and> \<not> nullish (req_body req) \<and> \<not> truthy (member (req_body req) ''userQuery'')"
  then show "handler describe env fetch req =
      \<lparr>outcome = Responded (send 400 (error_body ''userQuery is required.'')), calls = []\<rparr>"
    by (simp add: handler_def)
next
  assume "req_method req \<noteq> ''POST'' \<or> GEMINI_API_KEY env = None \<or> GEMINI_API_KEY env = Some ''''
        \<or> \<not> truthy (opt (req_body req) ''userQuery'')"
  then show "calls (handler describe env fetch req) = []"
    by (auto simp: handler_def Let_def opt_def split: option.splits)
qed

text \<open>
  A GET with no key and no body gets the 405, a POST with no key and no body the 500, a
  POST with a key and an empty \<^verbatim>\<open>userQuery\<close> the 400; the provider, which would answer,
  is not called.
\<close>

theorem validation_order_witness:
  "handler (\<lambda>t. ''TypeError'') \<lparr>GEMINI_API_KEY = None\<rparr>
     (\<lambda>url init. Inr \<lparr>status = 200, read_text = Inr ''{}'', read_json = Inr (Obj [])\<rparr>)
     \<lparr>req_method = ''GET'', req_body = Undefined\<rparr>
   = \<lparr>outcome = Responded (send 405 (error_body ''Method Not Allowed'')), calls = []\<rparr>
   \<and> handler (\<lambda>t. ''TypeError'') \<lparr>GEMINI_API_KEY = None\<rparr>
     (\<lambda>url init. Inr \<lparr>status = 200, read_text = Inr ''{}'', read_json = Inr (Obj [])\<rparr>)
     \<lparr>req_method = ''POST'', req_body = Undefined\<rparr>
   = \<lparr>outcome = Responded (send 500 (error_body ''API key is not configured on the server.'')),
      calls = []\<rparr>
   \<and> handler (\<lambda>t. ''TypeError'') \<lparr>GEMINI_API_KEY = Some ''secret''\<rparr>
     (\<lambda>url init. Inr \<lparr>status = 200, read_text = Inr ''{}'', read_json = Inr (Obj [])\<rparr>)
     \<lparr>req_method = ''POST'', req_body = Obj [(''userQuery'', Str '''')]\<rparr>
   = \<lparr>outcome = Responded (send 400 (error_body ''userQuery is required.'')), calls = []\<rparr>"
proof -
  let ?d = "\<lambda>t::type_error. ''TypeError''"
  let ?f = "\<lambda>(url::string) (init::fetch_init).
    (Inr \<lparr>status = 200, read_text = Inr ''{}'', read_json = Inr (Obj [])\<rparr> :: exn + provider_response)"
  have a: "handler ?d \<lparr>GEMINI_API_KEY = None\<rparr> ?f \<lparr>req_method = ''GET'', req_body = Undefined\<rparr>
      = \<lparr>outcome = Responded (send 405 (error_body ''Method Not Allowed'')), calls = []\<rparr>"
    using validation_order
      [of "\<lparr>req_method = ''GET'', req_body = Undefined\<rparr>" ?d "\<lparr>GEMINI_API_KEY = None\<rparr>" ?f]
    by simp
  have b: "handler ?d \<lparr>GEMINI_API_KEY = None\<rparr> ?f \<lparr>req_method = ''POST'', req_body = Undefined\<rparr>
      = \<lparr>outcome = Responded (send 500 (error_body ''API key is not configured on the server.'')),
         calls = []\<rparr>"
    using validation_order
      [of "\<lparr>req_method = ''POST'', req_body = Undefined\<rparr>" ?d "\<lparr>GEMINI_API_KEY = None\<rparr>" ?f]
    by simp
  have c: "handler ?d \<lparr>GEMINI_API_KEY = Some ''secret''\<rparr> ?f
        \<lparr>req_method = ''POST'', req_body = Obj [(''userQuery'', Str '''')]\<rparr>
      = \<lparr>outcome = Responded (send 400 (error_body ''userQuery is required.'')), calls = []\<rparr>"
    using validation_order
      [of "\<lparr>req_method = ''POST'', req_body = Obj [(''userQuery'', Str '''')]\<rparr>" ?d
          "\<lparr>GEMINI_API_KEY = Some ''secret''\<rparr>" ?f "''secret''"]
    by (simp add: nullish_def)
  from a b c show ?thesis by simp
qed

text \<open>
  Claim C10. A key that is set to the empty string counts as not configured: every POST
  gets 500 \<^verbatim>\<open>{error: "API key is not configured on the server."}\<close>, the provider is not
  called, and the run is the same as with the variable unset.
\<close>

theorem empty_key_unconfigured:
  assumes "req_method req = ''POST''" and "GEMINI_API_KEY env = Some ''''"
  shows "handler describe env fetch req =
      \<lparr>outcome = Responded (send 500 (error_body ''API key is not configured on the server.'')),
       calls = []\<rparr>
    \<and> handler describe env fetch req = handler describe (env\<lparr>GEMINI_API_KEY := None\<rparr>) fetch req"
  using assms by (simp add: handler_def)

theorem empty_key_unconfigured_witness:
  "handler (\<lambda>t. ''TypeError'') \<lparr>GEMINI_API_KEY = Some ''''\<rparr>
     (\<lambda>url init. Inr \<lparr>status = 200, read_text = Inr ''{}'', read_json = Inr (Obj [])\<rparr>)
     \<lparr>req_method = ''POST'', req_body = Obj [(''userQuery'', Str ''hello'')]\<rparr>
   = \<lparr>outcome = Responded (send 500 (error_body ''API key is not configured on the server.'')),
      calls = []\<rparr>"
  using empty_key_unconfigured
    [of "\<lparr>req_method = ''POST'', req_body = Obj [(''userQuery'', Str ''hello'')]\<rparr>"
        "\<lparr>GEMINI_API_KEY = Some ''''\<rparr>"
        "\<lambda>t. ''TypeError''"
        "\<lambda>url init. Inr \<lparr>status = 200, read_text = Inr ''{}'', read_json = Inr (Obj [])\<rparr>"]
  by simp

section \<open>Exceptions that leave the handler\<close>

text \<open>
  An exception leaves the handler in one case only: a POST, with the key configured,
  whose body is \<^verbatim>\<open>undefined\<close> or \<^verbatim>\<open>null\<close>. The destructuring of line 28 stands before the
  \<^verbatim>\<open>try\<close> block, so its TypeError is not caught.
\<close>

lemma handler_throws_iff:
  "(\<exists>e. outcome (handler describe env fetch req) = Threw e) \<longleftrightarrow>
     req_method req = ''POST'' \<and> (\<exists>apiKey. GEMINI_API_KEY env = Some apiKey \<and> apiKey \<noteq> [])
     \<and> nullish (req_body req)"
  by (auto simp: handler_def Let_def split: if_splits option.splits sum.splits)

text \<open>
  Claim C3 says that no exception propagates out of the handler, also for a request
  whose body is absent. For a POST without a body, with the key configured, the handler
  sends no response: the TypeError of the destructuring leaves it.
\<close>

theorem absent_body_throws:
  "handler describe \<lparr>GEMINI_API_KEY = Some ''secret''\<rparr> fetch
     \<lparr>req_method = ''POST'', req_body = Undefined\<rparr>
   = \<lparr>outcome = Threw (TypeError (Cannot_destructure Undefined)), calls = []\<rparr>"
  by (simp add: handler_def nullish_def)

section \<open>The outbound payload\<close>

text \<open>
  Claim C8. For every request that passes validation, the payload sent to the provider
  has the user query as its only content part; it has a \<^verbatim>\<open>tools\<close> key exactly when
  \<^verbatim>\<open>useGrounding\<close> is truthy, and then \<^verbatim>\<open>tools\<close> is the one search-tool marker; it has a
  \<^verbatim>\<open>systemInstruction\<close> key exactly when \<^verbatim>\<open>systemPrompt\<close> is truthy (for a string: not
  empty), and then \<^verbatim>\<open>systemInstruction.parts[0].text\<close> is the system prompt. A key that is
  not wanted is left out of the object, not set to a null value.
\<close>

theorem payload_keys:
  assumes "req_method req = ''POST''"
    and "GEMINI_API_KEY env = Some apiKey" and "apiKey \<noteq> ''''"
    and "\<not> nullish (req_body req)"
    and "truthy (member (req_body req) ''userQuery'')"
  shows "\<exists>payload.
      calls (handler describe env fetch req) =
        [(googleApiUrl apiKey,
          \<lparr>init_method = ''POST'', init_headers = [(''Content-Type'', ''application/json'')],
           init_body = JSON_stringify payload\<rparr>)]
    \<and> payload =
        Obj ([(''contents'', Arr [Obj [(''parts'', Arr [Obj [(''text'', member (req_body req) ''userQuery'')]])]])]
             @ (if truthy (member (req_body req) ''useGrounding'')
                then [(''tools'', Arr [Obj [(''google_search'', Obj [])]])] else [])
             @ (if truthy (member (req_body req) ''systemPrompt'')
                then [(''systemInstruction'',
                       Obj [(''parts'', Arr [Obj [(''text'', member (req_body req) ''systemPrompt'')]])])]
                else []))
    \<and> (has_property payload ''tools'' \<longleftrightarrow> truthy (member (req_body req) ''useGrounding''))
    \<and> (truthy (member (req_body req) ''useGrounding'') \<longrightarrow>
          member payload ''tools'' = Arr [Obj [(''google_search'', Obj [])]])
    \<and> (has_property payload ''systemInstruction'' \<longleftrightarrow> truthy (member (req_body req) ''systemPrompt''))
    \<and> (truthy (member (req_body req) ''systemPrompt'') \<longrightarrow>
          member (index0 (member (member payload ''systemInstruction'') ''parts'')) ''text''
            = member (req_body req) ''systemPrompt'')"
  using assms
  by (simp add: handler_def build_payload_def has_property_def Let_def)

text \<open>
  The scenarios of the specification: \<^verbatim>\<open>userQuery = "hello"\<close> alone gives a payload with
  neither key; with \<^verbatim>\<open>useGrounding = true\<close> and \<^verbatim>\<open>systemPrompt = "Be concise"\<close> both keys
  are there.
\<close>

theorem payload_keys_witness:
  "calls (handler (\<lambda>t. ''TypeError'') \<lparr>GEMINI_API_KEY = Some ''secret''\<rparr>
      (\<lambda>url init. Inl (Rejected ''fetch failed''))
      \<lparr>req_method = ''POST'', req_body = Obj [(''userQuery'', Str ''hello'')]\<rparr>)
   = [(googleApiUrl ''secret'',
       \<lparr>init_method = ''POST'', init_headers = [(''Content-Type'', ''application/json'')],
        init_body = JSON_stringify
          (Obj [(''contents'', Arr [Obj [(''parts'', Arr [Obj [(''text'', Str ''hello'')]])]])])\<rparr>)]
   \<and> calls (handler (\<lambda>t. ''TypeError'') \<lparr>GEMINI_API_KEY = Some ''secret''\<rparr>
      (\<lambda>url init. Inl (Rejected ''fetch failed''))
      \<lparr>req_method = ''POST'',
       req_body = Obj [(''userQuery'', Str ''hello''), (''systemPrompt'', Str ''Be concise''),
                       (''useGrounding'', Bool True)]\<rparr>)
   = [(googleApiUrl ''secret'',
       \<lparr>init_method = ''POST'', init_headers = [(''Content-Type'', ''application/json'')],
        init_body = JSON_stringify
          (Obj [(''contents'', Arr [Obj [(''parts'', Arr [Obj [(''text'', Str ''hello'')]])]]),
                (''tools'', Arr [Obj [(''google_search'', Obj [])]]),
                (''systemInstruction'', Obj [(''parts'', Arr [Obj [(''text'', Str ''Be concise'')]])])])\<rparr>)]"
proof -
  let ?d = "\<lambda>t::type_error. ''TypeError''"
  let ?f = "\<lambda>(url::string) (init::fetch_init). (Inl (Rejected ''fetch failed'') :: exn + provider_response)"
  have a: "calls (handler ?d \<lparr>GEMINI_API_KEY = Some ''secret''\<rparr> ?f
      \<lparr>req_method = ''POST'', req_body = Obj [(''userQuery'', Str ''hello'')]\<rparr>)
   = [(googleApiUrl ''secret'',
       \<lparr>init_method = ''POST'', init_headers = [(''Content-Type'', ''application/json'')],
        init_body = JSON_stringify
          (Obj [(''contents'', Arr [Obj [(''parts'', Arr [Obj [(''text'', Str ''hello'')]])]])])\<rparr>)]"
    using payload_keys
      [of "\<lparr>req_method = ''POST'', req_body = Obj [(''userQuery'', Str ''hello'')]\<rparr>"
          "\<lparr>GEMINI_API_KEY = Some ''secret''\<rparr>" "''secret''" ?d ?f]
    by (simp add: nullish_def)
  have b: "calls (handler ?d \<lparr>GEMINI_API_KEY = Some ''secret''\<rparr> ?f
      \<lparr>req_method = ''POST'',
       req_body = Obj [(''userQuery'', Str ''hello''), (''systemPrompt'', Str ''Be concise''),
                       (''useGrounding'', Bool True)]\<rparr>)
   = [(googleApiUrl ''secret'',
       \<lparr>init_method = ''POST'', init_headers = [(''Content-Type'', ''application/json'')],
        init_body = JSON_stringify
          (Obj [(''contents'', Arr [Obj [(''parts'', Arr [Obj [(''text'', Str ''hello'')]])]]),
                (''tools'', Arr [Obj [(''google_search'', Obj [])]]),
                (''systemInstruction'', Obj [(''parts'', Arr [Obj [(''text'', Str ''Be concise'')]])])])\<rparr>)]"
    using payload_keys
      [of "\<lparr>req_method = ''POST'',
       req_body = Obj [(''userQuery'', Str ''hello''), (''systemPrompt'', Str ''Be concise''),
                       (''useGrounding'', Bool True)]\<rparr>"
          "\<lparr>GEMINI_API_KEY = Some ''secret''\<rparr>" "''secret''" ?d ?f]
    by (simp add: nullish_def)
  from a b show ?thesis by simp
qed

section \<open>Successful provider answers\<close>

text \<open>
  For an answer with a success status the handler parses the body and looks at the
  first candidate. The facts below say what the \<^verbatim>\<open>try\<close> block makes of the parsed body
  \<open>result\<close>: with a truthy text at the structural path it answers 200 unless the reading
  of the grounding attributions throws, and the sources it reads are the complete web
  citations of the attributions, in their order.
\<close>

lemma handler_outcome_of_json:
  assumes "calls (handler describe env fetch req) = [(url, init)]"
    and "fetch url init = Inr r"
    and "ok r"
  shows "outcome (handler describe env fetch req) =
    (case seq (read_json r) respond_to_result of
       Inl error \<Rightarrow> Responded (send 500 (error_body (''Server error: '' @ message describe error)))
     | Inr response \<Rightarrow> Responded response)"
  using assms(2,3)
  by (simp add: handler_outcome_of_call [OF assms(1)] try_block_def)

lemma truthy_text_path:
  assumes "truthy (text_path result)"
  shows "\<not> nullish result" and "\<not> nullish (first_candidate result)"
proof -
  show "\<not> nullish result"
  proof
    assume "nullish result"
    then have "text_path result = Undefined"
      by (simp add: text_path_def first_candidate_def opt_def opt_index0_def nullish_def)
    with assms show False by simp
  qed
  show "\<not> nullish (first_candidate result)"
  proof
    assume "nullish (first_candidate result)"
    then have "text_path result = Undefined"
      by (simp add: text_path_def opt_def opt_index0_def nullish_def)
    with assms show False by simp
  qed
qed

lemma complete_citation:
  "complete (citation a) =
     (truthy (opt (opt a ''web'') ''uri'') \<and> truthy (opt (opt a ''web'') ''title''))"
  by (simp add: complete_def citation_def)

lemma filter_complete_citation:
  "filter complete (map citation as) =
     map citation
       (filter (\<lambda>a. truthy (opt (opt a ''web'') ''uri'') \<and> truthy (opt (opt a ''web'') ''title'')) as)"
  by (induction as) (simp_all add: complete_citation)

lemma grounding_sources_array:
  assumes "\<not> nullish candidate"
    and "opt (opt candidate ''groundingMetadata'') ''groundingAttributions'' = Arr as"
    and "\<forall>a\<in>set as. \<not> nullish a"
  shows "grounding_sources candidate = Inr (filter complete (map citation as))"
  using assms(2) map_exn_to_source [OF assms(3)]
  by (simp add: grounding_sources_eq [OF assms(1)] array_map_def nullish_def)

lemma grounding_sources_absent:
  assumes "\<not> nullish candidate"
    and "\<not> truthy (opt (opt candidate ''groundingMetadata'') ''groundingAttributions'')"
  shows "grounding_sources candidate = Inr []"
  using assms(2) by (simp add: grounding_sources_eq [OF assms(1)])

lemma map_exn_to_source_nullish:
  "\<exists>a\<in>set as. nullish a \<Longrightarrow>
   \<exists>a\<in>set as. nullish a \<and> map_exn to_source as = Inl (TypeError (Cannot_read ''web'' a))"
proof (induction as)
  case Nil
  then show ?case by simp
next
  case (Cons x xs)
  show ?case
  proof (cases "nullish x")
    case True
    then have "map_exn to_source (x # xs) = Inl (TypeError (Cannot_read ''web'' x))"
      by (simp add: to_source_def get_def)
    with True show ?thesis by auto
  next
    case False
    with Cons.prems have "\<exists>a\<in>set xs. nullish a" by auto
    then obtain a where a: "a \<in> set xs" "nullish a"
      "map_exn to_source xs = Inl (TypeError (Cannot_read ''web'' a))"
      using Cons.IH by blast
    from False a(3) have "map_exn to_source (x # xs) = Inl (TypeError (Cannot_read ''web'' a))"
      by (simp add: to_source_def)
    with a(1,2) show ?thesis by auto
  qed
qed

lemma grounding_sources_null_entry:
  assumes "\<not> nullish candidate"
    and "opt (opt candidate ''groundingMetadata'') ''groundingAttributions'' = Arr as"
    and "\<exists>a\<in>set as. nullish a"
  shows "\<exists>a\<in>set as. nullish a
    \<and> grounding_sources candidate = Inl (TypeError (Cannot_read ''web'' a))"
proof -
  from map_exn_to_source_nullish [OF assms(3)] obtain a where
    a: "a \<in> set as" "nullish a" "map_exn to_source as = Inl (TypeError (Cannot_read ''web'' a))"
    by blast
  from assms(2) a(3) have "grounding_sources candidate = Inl (TypeError (Cannot_read ''web'' a))"
    by (simp add: grounding_sources_eq [OF assms(1)] array_map_def nullish_def)
  with a(1,2) show ?thesis by blast
qed

lemma grounding_sources_not_array:
  assumes "\<not> nullish candidate"
    and "truthy (opt (opt candidate ''groundingMetadata'') ''groundingAttributions'')"
    and "\<forall>as. opt (opt candidate ''groundingMetadata'') ''groundingAttributions'' \<noteq> Arr as"
  shows "grounding_sources candidate = Inl (TypeError (Not_a_function ''map''))"
proof -
  have "\<not> nullish (opt (opt candidate ''groundingMetadata'') ''groundingAttributions'')"
    using assms(2) by (rule truthy_not_nullish)
  with assms(2,3) show ?thesis
    by (simp add: grounding_sources_eq [OF assms(1)] array_map_def split: jsval.splits)
qed

lemma handler_outcome_of_text:
  assumes "calls (handler describe env fetch req) = [(url, init)]"
    and "fetch url init = Inr r"
    and "ok r"
    and "read_json r = Inr result"
    and "truthy (text_path result)"
  shows "outcome (handler describe env fetch req) =
    (case grounding_sources (first_candidate result) of
       Inl error \<Rightarrow> Responded (send 500 (error_body (''Server error: '' @ message describe error)))
     | Inr sources \<Rightarrow>
         Responded (send 200 (Obj [(''text'', text_path result), (''sources'', Arr sources)])))"
  using assms(4,5) truthy_text_path(1) [OF assms(5)]
  by (simp add: handler_outcome_of_json [OF assms(1,2,3)] respond_to_result_eq seq_def
      split: sum.splits)

lemma grounding_sources_complete:
  "grounding_sources candidate = Inr sources \<Longrightarrow> \<forall>s\<in>set sources. complete s"
  by (auto simp: grounding_sources_def seq_def split: sum.splits if_splits)

lemma respond_to_result_200:
  assumes "respond_to_result result = Inr response" and "status_code response = 200"
  shows "\<exists>text sources. json_body response = Obj [(''text'', text), (''sources'', Arr sources)]
    \<and> grounding_sources (opt_index0 (member result ''candidates'')) = Inr sources"
  using assms
  by (auto simp: respond_to_result_def seq_def Let_def send_def get_def
      split: sum.splits if_splits)

subsection \<open>The text of the first candidate\<close>

text \<open>
  Claim C1, amended. For a provider answer with a success status whose body parses to a
  value other than \<^verbatim>\<open>null\<close>: if the text at \<^verbatim>\<open>candidates[0].content.parts[0].text\<close> is
  truthy (present and not empty) and the sources are read without an exception, the
  handler responds with status 200 and the body \<^verbatim>\<open>{text, sources}\<close> whose text is that
  value; and the 500 \<^verbatim>\<open>"The API returned an unexpected response."\<close> is sent if and only if
  that text is absent or falsy.
\<close>

theorem text_extracted:
  assumes "calls (handler describe env fetch req) = [(url, init)]"
    and "fetch url init = Inr r"
    and "ok r"
    and "read_json r = Inr result"
    and "\<not> nullish result"
  shows "(truthy (text_path result) \<and> grounding_sources (first_candidate result) = Inr sources \<longrightarrow>
       outcome (handler describe env fetch req) =
         Responded (send 200 (Obj [(''text'', text_path result), (''sources'', Arr sources)])))
    \<and> (outcome (handler describe env fetch req) =
         Responded (send 500 (error_body ''The API returned an unexpected response.''))
       \<longleftrightarrow> \<not> truthy (text_path result))"
proof -
  have out: "outcome (handler describe env fetch req) =
    (case respond_to_result result of
       Inl error \<Rightarrow> Responded (send 500 (error_body (''Server error: '' @ message describe error)))
     | Inr response \<Rightarrow> Responded response)"
    using assms(4) by (simp add: handler_outcome_of_json [OF assms(1,2,3)])
  show ?thesis
  proof (cases "truthy (text_path result)")
    case False
    then show ?thesis
      by (simp add: out respond_to_result_eq [OF assms(5)])
  next
    case True
    show ?thesis
    proof (cases "grounding_sources (first_candidate result)")
      case (Inl e)
      with True show ?thesis
        by (simp add: out respond_to_result_eq [OF assms(5)] send_def error_body_def)
    next
      case (Inr ss)
      with True show ?thesis
        by (simp add: out respond_to_result_eq [OF assms(5)] send_def)
    qed
  qed
qed

text \<open>
  The scenario of the specification: a 200 answer with the text \<^verbatim>\<open>Paris\<close> and no
  grounding metadata gives \<^verbatim>\<open>{text: "Paris", sources: []}\<close>.
\<close>

theorem text_extracted_witness:
  "calls (handler (\<lambda>t. ''TypeError'') \<lparr>GEMINI_API_KEY = Some ''secret''\<rparr>
      (\<lambda>url init. Inr
       \<lparr>status = 200,
        read_text = Inr ''{\"candidates\":[{\"content\":{\"parts\":[{\"text\":\"Paris\"}]}}]}'',
        read_json = Inr (Obj [(''candidates'', Arr [Obj [(''content'', Obj [(''parts'', Arr [Obj [(''text'', Str ''Paris'')]])])]])])\<rparr>)
      \<lparr>req_method = ''POST'', req_body = Obj [(''userQuery'', Str ''hello'')]\<rparr>)
    = [(googleApiUrl ''secret'',
        \<lparr>init_method = ''POST'', init_headers = [(''Content-Type'', ''application/json'')],
         init_body = JSON_stringify
           (Obj [(''contents'', Arr [Obj [(''parts'', Arr [Obj [(''text'', Str ''hello'')]])]])])\<rparr>)]
   \<and> ok \<lparr>status = 200,
        read_text = Inr ''{\"candidates\":[{\"content\":{\"parts\":[{\"text\":\"Paris\"}]}}]}'',
        read_json = Inr (Obj [(''candidates'', Arr [Obj [(''content'', Obj [(''parts'', Arr [Obj [(''text'', Str ''Paris'')]])])]])])\<rparr>
   \<and> truthy (text_path (Obj [(''candidates'', Arr [Obj [(''content'', Obj [(''parts'', Arr [Obj [(''text'', Str ''Paris'')]])])]])]))
   \<and> outcome (handler (\<lambda>t. ''TypeError'') \<lparr>GEMINI_API_KEY = Some ''secret''\<rparr>
      (\<lambda>url init. Inr
       \<lparr>status = 200,
        read_text = Inr ''{\"candidates\":[{\"content\":{\"parts\":[{\"text\":\"Paris\"}]}}]}'',
        read_json = Inr (Obj [(''candidates'', Arr [Obj [(''content'', Obj [(''parts'', Arr [Obj [(''text'', Str ''Paris'')]])])]])])\<rparr>)
      \<lparr>req_method = ''POST'', req_body = Obj [(''userQuery'', Str ''hello'')]\<rparr>)
    = Responded (send 200 (Obj [(''text'', Str ''Paris''), (''sources'', Arr [])]))"
proof -
  let ?d = "\<lambda>t::type_error. ''TypeError''"
  let ?e = "\<lparr>GEMINI_API_KEY = Some ''secret''\<rparr>"
  let ?req = "\<lparr>req_method = ''POST'', req_body = Obj [(''userQuery'', Str ''hello'')]\<rparr>"
  let ?init = "\<lparr>init_method = ''POST'', init_headers = [(''Content-Type'', ''application/json'')],
         init_body = JSON_stringify
           (Obj [(''contents'', Arr [Obj [(''parts'', Arr [Obj [(''text'', Str ''hello'')]])]])])\<rparr>"
  let ?r = "\<lparr>status = 200,
        read_text = Inr ''{\"candidates\":[{\"content\":{\"parts\":[{\"text\":\"Paris\"}]}}]}'',
        read_json = Inr (Obj [(''candidates'', Arr [Obj [(''content'', Obj [(''parts'', Arr [Obj [(''text'', Str ''Paris'')]])])]])])\<rparr>"
  let ?f = "\<lambda>(url::string) (init::fetch_init). (Inr ?r :: exn + provider_response)"
  let ?R = "Obj [(''candidates'', Arr [Obj [(''content'', Obj [(''parts'', Arr [Obj [(''text'', Str ''Paris'')]])])]])]"
  let ?h = "handler ?d ?e ?f ?req"
  have c: "calls ?h = [(googleApiUrl ''secret'', ?init)]"
    by (simp add: handler_def build_payload_def nullish_def Let_def)
  have k: "ok ?r"
    by (simp add: ok_def)
  have t: "text_path ?R = Str ''Paris''"
    by (simp add: text_path_def first_candidate_def attributions_def opt_def opt_index0_def nullish_def)
  have g: "grounding_sources (first_candidate ?R) = Inr []"
    by (simp add: grounding_sources_def first_candidate_def opt_def opt_index0_def nullish_def)
  have "outcome ?h = Responded (send 200 (Obj [(''text'', text_path ?R), (''sources'', Arr [])]))"
    using text_extracted [of ?d ?e ?f ?req "googleApiUrl ''secret''" ?init ?r ?R "[]"] c k t g
    by (simp add: nullish_def)
  with c k t show ?thesis by simp
qed

text \<open>
  Claim C1 as it is written takes the presence of the path as the test. The handler
  tests the truthiness of the text: an answer whose first part has the empty text
  \<^verbatim>\<open>""\<close> has the path, and gets the 500 all the same.
\<close>

theorem text_extracted_counterexample:
  "text_path (Obj [(''candidates'', Arr [Obj [(''content'', Obj [(''parts'', Arr [Obj [(''text'', Str '''')]])])]])]) = Str ''''
   \<and> outcome (handler (\<lambda>t. ''TypeError'') \<lparr>GEMINI_API_KEY = Some ''secret''\<rparr>
      (\<lambda>url init. Inr
       \<lparr>status = 200,
        read_text = Inr ''{\"candidates\":[{\"content\":{\"parts\":[{\"text\":\"\"}]}}]}'',
        read_json = Inr (Obj [(''candidates'', Arr [Obj [(''content'', Obj [(''parts'', Arr [Obj [(''text'', Str '''')]])])]])])\<rparr>)
      \<lparr>req_method = ''POST'', req_body = Obj [(''userQuery'', Str ''hello'')]\<rparr>)
    = Responded (send 500 (error_body ''The API returned an unexpected response.''))"
proof -
  let ?d = "\<lambda>t::type_error. ''TypeError''"
  let ?e = "\<lparr>GEMINI_API_KEY = Some ''secret''\<rparr>"
  let ?req = "\<lparr>req_method = ''POST'', req_body = Obj [(''userQuery'', Str ''hello'')]\<rparr>"
  let ?init = "\<lparr>init_method = ''POST'', init_headers = [(''Content-Type'', ''application/json'')],
         init_body = JSON_stringify
           (Obj [(''contents'', Arr [Obj [(''parts'', Arr [Obj [(''text'', Str ''hello'')]])]])])\<rparr>"
  let ?r = "\<lparr>status = 200,
        read_text = Inr ''{\"candidates\":[{\"content\":{\"parts\":[{\"text\":\"\"}]}}]}'',
        read_json = Inr (Obj [(''candidates'', Arr [Obj [(''content'', Obj [(''parts'', Arr [Obj [(''text'', Str '''')]])])]])])\<rparr>"
  let ?f = "\<lambda>(url::string) (init::fetch_init). (Inr ?r :: exn + provider_response)"
  let ?R = "Obj [(''candidates'', Arr [Obj [(''content'', Obj [(''parts'', Arr [Obj [(''text'', Str '''')]])])]])]"
  let ?h = "handler ?d ?e ?f ?req"
  have c: "calls ?h = [(googleApiUrl ''secret'', ?init)]"
    by (simp add: handler_def build_payload_def nullish_def Let_def)
  have k: "ok ?r"
    by (simp add: ok_def)
  have t: "text_path ?R = Str ''''"
    by (simp add: text_path_def first_candidate_def attributions_def opt_def opt_index0_def nullish_def)
  have "outcome ?h = Responded (send 500 (error_body ''The API returned an unexpected response.''))"
    using handler_outcome_of_json [of ?d ?e ?f ?req "googleApiUrl ''secret''" ?init ?r] c k t
    by (simp add: respond_to_result_eq nullish_def)
  with t show ?thesis by simp
qed

subsection \<open>Bodies that are not the expected answer\<close>

text \<open>
  Claim C6, amended. For a provider answer with a success status the handler responds
  with status 500 in each of these cases: when the body cannot be parsed as JSON the
  body is \<^verbatim>\<open>{error: "Server error: <message of the parser>"}\<close>, as for every exception
  caught by the \<^verbatim>\<open>try\<close> block; when the body parses to \<^verbatim>\<open>null\<close> it is the same with the
  engine's message for the failed read; when the body parses to another value in which
  the text at \<^verbatim>\<open>candidates[0].content.parts[0].text\<close> is absent or falsy, the body is
  exactly \<^verbatim>\<open>{error: "The API returned an unexpected response."}\<close>.
\<close>

theorem unexpected_body:
  assumes "calls (handler describe env fetch req) = [(url, init)]"
    and "fetch url init = Inr r"
    and "ok r"
  shows "(\<forall>e. read_json r = Inl e \<longrightarrow>
        outcome (handler describe env fetch req) =
          Responded (send 500 (error_body (''Server error: '' @ message describe e))))
    \<and> (read_json r = Inr Null \<longrightarrow>
        outcome (handler describe env fetch req) =
          Responded (send 500 (error_body
            (''Server error: '' @ describe (Cannot_read ''candidates'' Null)))))
    \<and> (\<forall>result. read_json r = Inr result \<and> \<not> nullish result \<and> \<not> truthy (text_path result) \<longrightarrow>
        outcome (handler describe env fetch req) =
          Responded (send 500 (error_body ''The API returned an unexpected response.'')))"
proof (intro conjI allI impI)
  fix e
  assume "read_json r = Inl e"
  then show "outcome (handler describe env fetch req) =
      Responded (send 500 (error_body (''Server error: '' @ message describe e)))"
    by (simp add: handler_outcome_of_json [OF assms])
next
  assume "read_json r = Inr Null"
  then show "outcome (handler describe env fetch req) =
      Responded (send 500 (error_body (''Server error: '' @ describe (Cannot_read ''candidates'' Null))))"
    by (simp add: handler_outcome_of_json [OF assms] respond_to_result_def get_def nullish_def
        message_def)
next
  fix result
  assume "read_json r = Inr result \<and> \<not> nullish result \<and> \<not> truthy (text_path result)"
  then show "outcome (handler describe env fetch req) =
      Responded (send 500 (error_body ''The API returned an unexpected response.''))"
    by (simp add: handler_outcome_of_json [OF assms] respond_to_result_eq)
qed

text \<open>
  The scenario of the specification: a 200 answer \<^verbatim>\<open>{}\<close>, without \<^verbatim>\<open>candidates\<close>, gets the
  500 \<^verbatim>\<open>"The API returned an unexpected response."\<close>; a 200 answer whose body is not JSON
  gets the 500 with the parser's message.
\<close>

theorem unexpected_body_witness:
  "calls (handler (\<lambda>t. ''TypeError'') \<lparr>GEMINI_API_KEY = Some ''secret''\<rparr>
      (\<lambda>url init. Inr
       \<lparr>status = 200,
        read_text = Inr ''{}'',
        read_json = Inr (Obj [])\<rparr>)
      \<lparr>req_method = ''POST'', req_body = Obj [(''userQuery'', Str ''hello'')]\<rparr>)
    = [(googleApiUrl ''secret'',
        \<lparr>init_method = ''POST'', init_headers = [(''Content-Type'', ''application/json'')],
         init_body = JSON_stringify
           (Obj [(''contents'', Arr [Obj [(''parts'', Arr [Obj [(''text'', Str ''hello'')]])]])])\<rparr>)]
   \<and> ok \<lparr>status = 200,
        read_text = Inr ''{}'',
        read_json = Inr (Obj [])\<rparr>
   \<and> outcome (handler (\<lambda>t. ''TypeError'') \<lparr>GEMINI_API_KEY = Some ''secret''\<rparr>
      (\<lambda>url init. Inr
       \<lparr>status = 200,
        read_text = Inr ''{}'',
        read_json = Inr (Obj [])\<rparr>)
      \<lparr>req_method = ''POST'', req_body = Obj [(''userQuery'', Str ''hello'')]\<rparr>)
    = Responded (send 500 (error_body ''The API returned an unexpected response.''))
   \<and> outcome (handler (\<lambda>t. ''TypeError'') \<lparr>GEMINI_API_KEY = Some ''secret''\<rparr>
      (\<lambda>url init. Inr
       \<lparr>status = 200,
        read_text = Inr ''not json'',
        read_json = Inl (Rejected ''Unexpected token o in JSON at position 1'')\<rparr>)
      \<lparr>req_method = ''POST'', req_body = Obj [(''userQuery'', Str ''hello'')]\<rparr>)
    = Responded (send 500 (error_body ''Server error: Unexpected token o in JSON at position 1''))"
proof -
  let ?d = "\<lambda>t::type_error. ''TypeError''"
  let ?e = "\<lparr>GEMINI_API_KEY = Some ''secret''\<rparr>"
  let ?req = "\<lparr>req_method = ''POST'', req_body = Obj [(''userQuery'', Str ''hello'')]\<rparr>"
  let ?init = "\<lparr>init_method = ''POST'', init_headers = [(''Content-Type'', ''application/json'')],
         init_body = JSON_stringify
           (Obj [(''contents'', Arr [Obj [(''parts'', Arr [Obj [(''text'', Str ''hello'')]])]])])\<rparr>"
  let ?r = "\<lparr>status = 200,
        read_text = Inr ''{}'',
        read_json = Inr (Obj [])\<rparr>"
  let ?f = "\<lambda>(url::string) (init::fetch_init). (Inr ?r :: exn + provider_response)"
  let ?h = "handler ?d ?e ?f ?req"
  have c: "calls ?h = [(googleApiUrl ''secret'', ?init)]"
    by (simp add: handler_def build_payload_def nullish_def Let_def)
  have k: "ok ?r"
    by (simp add: ok_def)
  have a: "outcome ?h = Responded (send 500 (error_body ''The API returned an unexpected response.''))"
    using unexpected_body [of ?d ?e ?f ?req "googleApiUrl ''secret''" ?init ?r] c k
    by (simp add: text_path_def first_candidate_def attributions_def opt_def opt_index0_def nullish_def)
  let ?r' = "\<lparr>status = 200,
        read_text = Inr ''not json'',
        read_json = Inl (Rejected ''Unexpected token o in JSON at position 1'')\<rparr>"
  let ?f' = "\<lambda>(url::string) (init::fetch_init). (Inr ?r' :: exn + provider_response)"
  have c': "calls (handler ?d ?e ?f' ?req) = [(googleApiUrl ''secret'', ?init)]"
    by (simp add: handler_def build_payload_def nullish_def Let_def)
  have k': "ok ?r'"
    by (simp add: ok_def)
  have b: "outcome (handler ?d ?e ?f' ?req) =
      Responded (send 500 (error_body ''Server error: Unexpected token o in JSON at position 1''))"
    using unexpected_body [of ?d ?e ?f' ?req "googleApiUrl ''secret''" ?init ?r'] c' k'
    by (simp add: message_def)
  from c k a b show ?thesis by simp
qed

text \<open>
  Claim C6 as it is written gives the body \<^verbatim>\<open>"The API returned an unexpected response."\<close>
  to a malformed body too. A 200 answer carrying a page of markup makes \<^verbatim>\<open>json()\<close> reject;
  the \<^verbatim>\<open>catch\<close> block answers with its own message.
\<close>

theorem unexpected_body_counterexample:
  "ok \<lparr>status = 200,
        read_text = Inr ''<html>Bad Gateway</html>'',
        read_json = Inl (Rejected ''Unexpected token < in JSON at position 0'')\<rparr>
   \<and> outcome (handler (\<lambda>t. ''TypeError'') \<lparr>GEMINI_API_KEY = Some ''secret''\<rparr>
      (\<lambda>url init. Inr
       \<lparr>status = 200,
        read_text = Inr ''<html>Bad Gateway</html>'',
        read_json = Inl (Rejected ''Unexpected token < in JSON at position 0'')\<rparr>)
      \<lparr>req_method = ''POST'', req_body = Obj [(''userQuery'', Str ''hello'')]\<rparr>)
    = Responded (send 500 (error_body ''Server error: Unexpected token < in JSON at position 0''))
   \<and> outcome (handler (\<lambda>t. ''TypeError'') \<lparr>GEMINI_API_KEY = Some ''secret''\<rparr>
      (\<lambda>url init. Inr
       \<lparr>status = 200,
        read_text = Inr ''<html>Bad Gateway</html>'',
        read_json = Inl (Rejected ''Unexpected token < in JSON at position 0'')\<rparr>)
      \<lparr>req_method = ''POST'', req_body = Obj [(''userQuery'', Str ''hello'')]\<rparr>)
    \<noteq> Responded (send 500 (error_body ''The API returned an unexpected response.''))"
proof -
  let ?d = "\<lambda>t::type_error. ''TypeError''"
  let ?e = "\<lparr>GEMINI_API_KEY = Some ''secret''\<rparr>"
  let ?req = "\<lparr>req_method = ''POST'', req_body = Obj [(''userQuery'', Str ''hello'')]\<rparr>"
  let ?init = "\<lparr>init_method = ''POST'', init_headers = [(''Content-Type'', ''application/json'')],
         init_body = JSON_stringify
           (Obj [(''contents'', Arr [Obj [(''parts'', Arr [Obj [(''text'', Str ''hello'')]])]])])\<rparr>"
  let ?r = "\<lparr>status = 200,
        read_text = Inr ''<html>Bad Gateway</html>'',
        read_json = Inl (Rejected ''Unexpected token < in JSON at position 0'')\<rparr>"
  let ?f = "\<lambda>(url::string) (init::fetch_init). (Inr ?r :: exn + provider_response)"
  let ?h = "handler ?d ?e ?f ?req"
  have c: "calls ?h = [(googleApiUrl ''secret'', ?init)]"
    by (simp add: handler_def build_payload_def nullish_def Let_def)
  have k: "ok ?r"
    by (simp add: ok_def)
  have a: "outcome ?h = Responded (send 500 (error_body ''Server error: Unexpected token < in JSON at position 0''))"
    using handler_outcome_of_json [of ?d ?e ?f ?req "googleApiUrl ''secret''" ?init ?r] c k
    by (simp add: message_def)
  have "Responded (send 500 (error_body ''Server error: Unexpected token < in JSON at position 0'')) \<noteq> Responded (send 500 (error_body ''The API returned an unexpected response.''))"
    by (simp add: send_def error_body_def)
  with k a show ?thesis by simp
qed

subsection \<open>The sources\<close>

text \<open>
  Claim C5, amended. For a provider answer with a success status and a truthy text at
  \<^verbatim>\<open>candidates[0].content.parts[0].text\<close>: when the first candidate has no grounding
  attributions (the grounding metadata is absent, or the attributions are falsy), the
  response carries \<^verbatim>\<open>sources\<close> as the empty sequence; when the grounding attributions are
  an array with no \<^verbatim>\<open>null\<close> or \<^verbatim>\<open>undefined\<close> entry, the sources are the web citations
  \<^verbatim>\<open>{uri, title}\<close> of the attributions that have both a truthy \<^verbatim>\<open>uri\<close> and a truthy \<^verbatim>\<open>title\<close>,
  in the order of the attributions, so that an attribution that misses either field is
  dropped; when the array has a \<^verbatim>\<open>null\<close> or \<^verbatim>\<open>undefined\<close> entry, or the attributions are a
  truthy value that is not an array, no sources are sent: the handler responds with
  status 500 and \<^verbatim>\<open>{error: "Server error: <message>"}\<close>, the message being the engine's for
  the failed read of \<^verbatim>\<open>web\<close> or the failed call of \<^verbatim>\<open>map\<close>.
\<close>

theorem sources_extracted:
  assumes "calls (handler describe env fetch req) = [(url, init)]"
    and "fetch url init = Inr r"
    and "ok r"
    and "read_json r = Inr result"
    and "truthy (text_path result)"
  shows "(\<not> truthy (attributions result) \<longrightarrow>
        outcome (handler describe env fetch req) =
          Responded (send 200 (Obj [(''text'', text_path result), (''sources'', Arr [])])))
    \<and> (\<forall>as. attributions result = Arr as \<and> (\<forall>a\<in>set as. \<not> nullish a) \<longrightarrow>
        outcome (handler describe env fetch req) =
          Responded (send 200 (Obj [(''text'', text_path result),
            (''sources'', Arr (map citation
               (filter (\<lambda>a. truthy (opt (opt a ''web'') ''uri'')
                          \<and> truthy (opt (opt a ''web'') ''title'')) as)))])))
    \<and> (\<forall>as. attributions result = Arr as \<and> (\<exists>a\<in>set as. nullish a) \<longrightarrow>
        (\<exists>a\<in>set as. nullish a
          \<and> outcome (handler describe env fetch req) =
              Responded (send 500 (error_body
                (''Server error: '' @ describe (Cannot_read ''web'' a))))))
    \<and> (truthy (attributions result) \<and> (\<forall>as. attributions result \<noteq> Arr as) \<longrightarrow>
        outcome (handler describe env fetch req) =
          Responded (send 500 (error_body
            (''Server error: '' @ describe (Not_a_function ''map'')))))"
proof (intro conjI allI impI)
  assume "\<not> truthy (attributions result)"
  then have "grounding_sources (first_candidate result) = Inr []"
    unfolding attributions_def
    by (rule grounding_sources_absent [OF truthy_text_path(2) [OF assms(5)]])
  then show "outcome (handler describe env fetch req) =
      Responded (send 200 (Obj [(''text'', text_path result), (''sources'', Arr [])]))"
    by (simp add: handler_outcome_of_text [OF assms])
next
  fix as
  assume a: "attributions result = Arr as \<and> (\<forall>a\<in>set as. \<not> nullish a)"
  then have "grounding_sources (first_candidate result) = Inr (filter complete (map citation as))"
    unfolding attributions_def
    by (intro grounding_sources_array [OF truthy_text_path(2) [OF assms(5)]]) simp_all
  then show "outcome (handler describe env fetch req) =
      Responded (send 200 (Obj [(''text'', text_path result),
        (''sources'', Arr (map citation
           (filter (\<lambda>a. truthy (opt (opt a ''web'') ''uri'')
                      \<and> truthy (opt (opt a ''web'') ''title'')) as)))]))"
    by (simp add: handler_outcome_of_text [OF assms] filter_complete_citation)
next
  fix as
  assume a: "attributions result = Arr as \<and> (\<exists>a\<in>set as. nullish a)"
  then have "\<exists>a\<in>set as. nullish a
      \<and> grounding_sources (first_candidate result) = Inl (TypeError (Cannot_read ''web'' a))"
    unfolding attributions_def
    by (intro grounding_sources_null_entry [OF truthy_text_path(2) [OF assms(5)]]) simp_all
  then obtain a where "a \<in> set as" "nullish a"
    "grounding_sources (first_candidate result) = Inl (TypeError (Cannot_read ''web'' a))"
    by blast
  then show "\<exists>a\<in>set as. nullish a
      \<and> outcome (handler describe env fetch req) =
          Responded (send 500 (error_body (''Server error: '' @ describe (Cannot_read ''web'' a))))"
    by (auto simp: handler_outcome_of_text [OF assms] message_def)
next
  assume "truthy (attributions result) \<and> (\<forall>as. attributions result \<noteq> Arr as)"
  then have "grounding_sources (first_candidate result) = Inl (TypeError (Not_a_function ''map''))"
    unfolding attributions_def
    by (intro grounding_sources_not_array [OF truthy_text_path(2) [OF assms(5)]]) simp_all
  then show "outcome (handler describe env fetch req) =
      Responded (send 500 (error_body (''Server error: '' @ describe (Not_a_function ''map''))))"
    by (simp add: handler_outcome_of_text [OF assms] message_def)
qed

text \<open>
  The scenarios of the specification: of the attributions \<^verbatim>\<open>{web: {uri: "http://x",
  title: "X"}}\<close> and \<^verbatim>\<open>{web: {uri: "http://y"}}\<close> only the first is a source; without
  grounding metadata the response is \<^verbatim>\<open>{text: "Paris", sources: []}\<close>. Attributions that
  are the string \<^verbatim>\<open>"none"\<close> get the 500 of the \<^verbatim>\<open>catch\<close> block.
\<close>

theorem sources_extracted_witness:
  "calls (handler (\<lambda>t. ''TypeError'') \<lparr>GEMINI_API_KEY = Some ''secret''\<rparr>
      (\<lambda>url init. Inr
       \<lparr>status = 200,
        read_text = Inr ''{\"candidates\":[{\"content\":{\"parts\":[{\"text\":\"Paris\"}]},\"groundingMetadata\":{\"groundingAttributions\":[{\"web\":{\"uri\":\"http://x\",\"title\":\"X\"}},{\"web\":{\"uri\":\"http://y\"}}]}}]}'',
        read_json = Inr (Obj [(''candidates'', Arr [Obj [(''content'', Obj [(''parts'', Arr [Obj [(''text'', Str ''Paris'')]])]),
          (''groundingMetadata'', Obj [(''groundingAttributions'', Arr [Obj [(''web'', Obj [(''uri'', Str ''http://x''), (''title'', Str ''X'')])],
            Obj [(''web'', Obj [(''uri'', Str ''http://y'')])]])])]])])\<rparr>)
      \<lparr>req_method = ''POST'', req_body = Obj [(''userQuery'', Str ''hello'')]\<rparr>)
    = [(googleApiUrl ''secret'',
        \<lparr>init_method = ''POST'', init_headers = [(''Content-Type'', ''application/json'')],
         init_body = JSON_stringify
           (Obj [(''contents'', Arr [Obj [(''parts'', Arr [Obj [(''text'', Str ''hello'')]])]])])\<rparr>)]
   \<and> ok \<lparr>status = 200,
        read_text = Inr ''{\"candidates\":[{\"content\":{\"parts\":[{\"text\":\"Paris\"}]},\"groundingMetadata\":{\"groundingAttributions\":[{\"web\":{\"uri\":\"http://x\",\"title\":\"X\"}},{\"web\":{\"uri\":\"http://y\"}}]}}]}'',
        read_json = Inr (Obj [(''candidates'', Arr [Obj [(''content'', Obj [(''parts'', Arr [Obj [(''text'', Str ''Paris'')]])]),
          (''groundingMetadata'', Obj [(''groundingAttributions'', Arr [Obj [(''web'', Obj [(''uri'', Str ''http://x''), (''title'', Str ''X'')])],
            Obj [(''web'', Obj [(''uri'', Str ''http://y'')])]])])]])])\<rparr>
   \<and> truthy (text_path (Obj [(''candidates'', Arr [Obj [(''content'', Obj [(''parts'', Arr [Obj [(''text'', Str ''Paris'')]])]),
          (''groundingMetadata'', Obj [(''groundingAttributions'', Arr [Obj [(''web'', Obj [(''uri'', Str ''http://x''), (''title'', Str ''X'')])],
            Obj [(''web'', Obj [(''uri'', Str ''http://y'')])]])])]])]))
   \<and> attributions (Obj [(''candidates'', Arr [Obj [(''content'', Obj [(''parts'', Arr [Obj [(''text'', Str ''Paris'')]])]),
          (''groundingMetadata'', Obj [(''groundingAttributions'', Arr [Obj [(''web'', Obj [(''uri'', Str ''http://x''), (''title'', Str ''X'')])],
            Obj [(''web'', Obj [(''uri'', Str ''http://y'')])]])])]])])
    = Arr [Obj [(''web'', Obj [(''uri'', Str ''http://x''), (''title'', Str ''X'')])],
           Obj [(''web'', Obj [(''uri'', Str ''http://y'')])]]
   \<and> outcome (handler (\<lambda>t. ''TypeError'') \<lparr>GEMINI_API_KEY = Some ''secret''\<rparr>
      (\<lambda>url init. Inr
       \<lparr>status = 200,
        read_text = Inr ''{\"candidates\":[{\"content\":{\"parts\":[{\"text\":\"Paris\"}]},\"groundingMetadata\":{\"groundingAttributions\":[{\"web\":{\"uri\":\"http://x\",\"title\":\"X\"}},{\"web\":{\"uri\":\"http://y\"}}]}}]}'',
        read_json = Inr (Obj [(''candidates'', Arr [Obj [(''content'', Obj [(''parts'', Arr [Obj [(''text'', Str ''Paris'')]])]),
          (''groundingMetadata'', Obj [(''groundingAttributions'', Arr [Obj [(''web'', Obj [(''uri'', Str ''http://x''), (''title'', Str ''X'')])],
            Obj [(''web'', Obj [(''uri'', Str ''http://y'')])]])])]])])\<rparr>)
      \<lparr>req_method = ''POST'', req_body = Obj [(''userQuery'', Str ''hello'')]\<rparr>)
    = Responded (send 200 (Obj [(''text'', Str ''Paris''),
        (''sources'', Arr [Obj [(''uri'', Str ''http://x''), (''title'', Str ''X'')]])]))
   \<and> outcome (handler (\<lambda>t. ''TypeError'') \<lparr>GEMINI_API_KEY = Some ''secret''\<rparr>
      (\<lambda>url init. Inr
       \<lparr>status = 200,
        read_text = Inr ''{\"candidates\":[{\"content\":{\"parts\":[{\"text\":\"Paris\"}]}}]}'',
        read_json = Inr (Obj [(''candidates'', Arr [Obj [(''content'', Obj [(''parts'', Arr [Obj [(''text'', Str ''Paris'')]])])]])])\<rparr>)
      \<lparr>req_method = ''POST'', req_body = Obj [(''userQuery'', Str ''hello'')]\<rparr>)
    = Responded (send 200 (Obj [(''text'', Str ''Paris''), (''sources'', Arr [])]))
   \<and> outcome (handler (\<lambda>t. ''TypeError'') \<lparr>GEMINI_API_KEY = Some ''secret''\<rparr>
      (\<lambda>url init. Inr
       \<lparr>status = 200,
        read_text = Inr ''{\"candidates\":[{\"content\":{\"parts\":[{\"text\":\"Paris\"}]},\"groundingMetadata\":{\"groundingAttributions\":\"none\"}}]}'',
        read_json = Inr (Obj [(''candidates'', Arr [Obj [(''content'', Obj [(''parts'', Arr [Obj [(''text'', Str ''Paris'')]])]),
          (''groundingMetadata'', Obj [(''groundingAttributions'', Str ''none'')])]])])\<rparr>)
      \<lparr>req_method = ''POST'', req_body = Obj [(''userQuery'', Str ''hello'')]\<rparr>)
    = Responded (send 500 (error_body ''Server error: TypeError''))"
proof -
  let ?d = "\<lambda>t::type_error. ''TypeError''"
  let ?e = "\<lparr>GEMINI_API_KEY = Some ''secret''\<rparr>"
  let ?req = "\<lparr>req_method = ''POST'', req_body = Obj [(''userQuery'', Str ''hello'')]\<rparr>"
  let ?init = "\<lparr>init_method = ''POST'', init_headers = [(''Content-Type'', ''application/json'')],
         init_body = JSON_stringify
           (Obj [(''contents'', Arr [Obj [(''parts'', Arr [Obj [(''text'', Str ''hello'')]])]])])\<rparr>"
  let ?r = "\<lparr>status = 200,
        read_text = Inr ''{\"candidates\":[{\"content\":{\"parts\":[{\"text\":\"Paris\"}]},\"groundingMetadata\":{\"groundingAttributions\":[{\"web\":{\"uri\":\"http://x\",\"title\":\"X\"}},{\"web\":{\"uri\":\"http://y\"}}]}}]}'',
        read_json = Inr (Obj [(''candidates'', Arr [Obj [(''content'', Obj [(''parts'', Arr [Obj [(''text'', Str ''Paris'')]])]),
          (''groundingMetadata'', Obj [(''groundingAttributions'', Arr [Obj [(''web'', Obj [(''uri'', Str ''http://x''), (''title'', Str ''X'')])],
            Obj [(''web'', Obj [(''uri'', Str ''http://y'')])]])])]])])\<rparr>"
  let ?R = "Obj [(''candidates'', Arr [Obj [(''content'', Obj [(''parts'', Arr [Obj [(''text'', Str ''Paris'')]])]),
          (''groundingMetadata'', Obj [(''groundingAttributions'', Arr [Obj [(''web'', Obj [(''uri'', Str ''http://x''), (''title'', Str ''X'')])],
            Obj [(''web'', Obj [(''uri'', Str ''http://y'')])]])])]])]"
  let ?f = "\<lambda>(url::string) (init::fetch_init). (Inr ?r :: exn + provider_response)"
  let ?h = "handler ?d ?e ?f ?req"
  have c: "calls ?h = [(googleApiUrl ''secret'', ?init)]"
    by (simp add: handler_def build_payload_def nullish_def Let_def)
  have k: "ok ?r"
    by (simp add: ok_def)
  have t: "text_path ?R = Str ''Paris''"
    by (simp add: text_path_def first_candidate_def attributions_def opt_def opt_index0_def nullish_def)
  have g: "attributions ?R = Arr [Obj [(''web'', Obj [(''uri'', Str ''http://x''), (''title'', Str ''X'')])], Obj [(''web'', Obj [(''uri'', Str ''http://y'')])]]"
    by (simp add: text_path_def first_candidate_def attributions_def opt_def opt_index0_def nullish_def)
  have a: "outcome ?h = Responded (send 200 (Obj [(''text'', Str ''Paris''),
        (''sources'', Arr [Obj [(''uri'', Str ''http://x''), (''title'', Str ''X'')]])]))"
    using sources_extracted [of ?d ?e ?f ?req "googleApiUrl ''secret''" ?init ?r ?R] c k t g
    by (simp add: citation_def opt_def nullish_def)
  let ?r' = "\<lparr>status = 200,
        read_text = Inr ''{\"candidates\":[{\"content\":{\"parts\":[{\"text\":\"Paris\"}]}}]}'',
        read_json = Inr (Obj [(''candidates'', Arr [Obj [(''content'', Obj [(''parts'', Arr [Obj [(''text'', Str ''Paris'')]])])]])])\<rparr>"
  let ?R' = "Obj [(''candidates'', Arr [Obj [(''content'', Obj [(''parts'', Arr [Obj [(''text'', Str ''Paris'')]])])]])]"
  let ?f' = "\<lambda>(url::string) (init::fetch_init). (Inr ?r' :: exn + provider_response)"
  have c': "calls (handler ?d ?e ?f' ?req) = [(googleApiUrl ''secret'', ?init)]"
    by (simp add: handler_def build_payload_def nullish_def Let_def)
  have k': "ok ?r'"
    by (simp add: ok_def)
  have t': "text_path ?R' = Str ''Paris''"
    by (simp add: text_path_def first_candidate_def attributions_def opt_def opt_index0_def nullish_def)
  have g': "attributions ?R' = Undefined"
    by (simp add: text_path_def first_candidate_def attributions_def opt_def opt_index0_def nullish_def)
  have b: "outcome (handler ?d ?e ?f' ?req) =
      Responded (send 200 (Obj [(''text'', Str ''Paris''), (''sources'', Arr [])]))"
    using sources_extracted [of ?d ?e ?f' ?req "googleApiUrl ''secret''" ?init ?r' ?R'] c' k' t' g'
    by simp
  let ?r'' = "\<lparr>status = 200,
        read_text = Inr ''{\"candidates\":[{\"content\":{\"parts\":[{\"text\":\"Paris\"}]},\"groundingMetadata\":{\"groundingAttributions\":\"none\"}}]}'',
        read_json = Inr (Obj [(''candidates'', Arr [Obj [(''content'', Obj [(''parts'', Arr [Obj [(''text'', Str ''Paris'')]])]),
          (''groundingMetadata'', Obj [(''groundingAttributions'', Str ''none'')])]])])\<rparr>"
  let ?R'' = "Obj [(''candidates'', Arr [Obj [(''content'', Obj [(''parts'', Arr [Obj [(''text'', Str ''Paris'')]])]),
          (''groundingMetadata'', Obj [(''groundingAttributions'', Str ''none'')])]])]"
  let ?f'' = "\<lambda>(url::string) (init::fetch_init). (Inr ?r'' :: exn + provider_response)"
  have c'': "calls (handler ?d ?e ?f'' ?req) = [(googleApiUrl ''secret'', ?init)]"
    by (simp add: handler_def build_payload_def nullish_def Let_def)
  have k'': "ok ?r''"
    by (simp add: ok_def)
  have t'': "text_path ?R'' = Str ''Paris''"
    by (simp add: text_path_def first_candidate_def attributions_def opt_def opt_index0_def nullish_def)
  have g'': "attributions ?R'' = Str ''none''"
    by (simp add: text_path_def first_candidate_def attributions_def opt_def opt_index0_def nullish_def)
  have x'': "outcome (handler ?d ?e ?f'' ?req) = Responded (send 500 (error_body ''Server error: TypeError''))"
    using sources_extracted [of ?d ?e ?f'' ?req "googleApiUrl ''secret''" ?init ?r'' ?R'']
      c'' k'' t'' g''
    by (simp add: nullish_def)
  from c k t g a b x'' show ?thesis by simp
qed

text \<open>
  Claim C5 as it is written speaks of every successful answer with grounding metadata.
  An answer whose attribution array holds a \<^verbatim>\<open>null\<close> entry after a complete one makes the
  arrow function of \<^verbatim>\<open>map\<close> throw on \<^verbatim>\<open>attribution.web\<close>: the handler maps nothing and
  answers 500.
\<close>

theorem sources_extracted_counterexample:
  "attributions (Obj [(''candidates'', Arr [Obj [(''content'', Obj [(''parts'', Arr [Obj [(''text'', Str ''Paris'')]])]),
          (''groundingMetadata'', Obj [(''groundingAttributions'', Arr [Obj [(''web'', Obj [(''uri'', Str ''http://x''), (''title'', Str ''X'')])],
            Null])])]])])
    = Arr [Obj [(''web'', Obj [(''uri'', Str ''http://x''), (''title'', Str ''X'')])], Null]
   \<and> outcome (handler (\<lambda>t. ''TypeError'') \<lparr>GEMINI_API_KEY = Some ''secret''\<rparr>
      (\<lambda>url init. Inr
       \<lparr>status = 200,
        read_text = Inr ''{\"candidates\":[{\"content\":{\"parts\":[{\"text\":\"Paris\"}]},\"groundingMetadata\":{\"groundingAttributions\":[{\"web\":{\"uri\":\"http://x\",\"title\":\"X\"}},null]}}]}'',
        read_json = Inr (Obj [(''candidates'', Arr [Obj [(''content'', Obj [(''parts'', Arr [Obj [(''text'', Str ''Paris'')]])]),
          (''groundingMetadata'', Obj [(''groundingAttributions'', Arr [Obj [(''web'', Obj [(''uri'', Str ''http://x''), (''title'', Str ''X'')])],
            Null])])]])])\<rparr>)
      \<lparr>req_method = ''POST'', req_body = Obj [(''userQuery'', Str ''hello'')]\<rparr>)
    = Responded (send 500 (error_body ''Server error: TypeError''))"
proof -
  let ?d = "\<lambda>t::type_error. ''TypeError''"
  let ?e = "\<lparr>GEMINI_API_KEY = Some ''secret''\<rparr>"
  let ?req = "\<lparr>req_method = ''POST'', req_body = Obj [(''userQuery'', Str ''hello'')]\<rparr>"
  let ?init = "\<lparr>init_method = ''POST'', init_headers = [(''Content-Type'', ''application/json'')],
         init_body = JSON_stringify
           (Obj [(''contents'', Arr [Obj [(''parts'', Arr [Obj [(''text'', Str ''hello'')]])]])])\<rparr>"
  let ?r = "\<lparr>status = 200,
        read_text = Inr ''{\"candidates\":[{\"content\":{\"parts\":[{\"text\":\"Paris\"}]},\"groundingMetadata\":{\"groundingAttributions\":[{\"web\":{\"uri\":\"http://x\",\"title\":\"X\"}},null]}}]}'',
        read_json = Inr (Obj [(''candidates'', Arr [Obj [(''content'', Obj [(''parts'', Arr [Obj [(''text'', Str ''Paris'')]])]),
          (''groundingMetadata'', Obj [(''groundingAttributions'', Arr [Obj [(''web'', Obj [(''uri'', Str ''http://x''), (''title'', Str ''X'')])],
            Null])])]])])\<rparr>"
  let ?R = "Obj [(''candidates'', Arr [Obj [(''content'', Obj [(''parts'', Arr [Obj [(''text'', Str ''Paris'')]])]),
          (''groundingMetadata'', Obj [(''groundingAttributions'', Arr [Obj [(''web'', Obj [(''uri'', Str ''http://x''), (''title'', Str ''X'')])],
            Null])])]])]"
  let ?f = "\<lambda>(url::string) (init::fetch_init). (Inr ?r :: exn + provider_response)"
  let ?h = "handler ?d ?e ?f ?req"
  have c: "calls ?h = [(googleApiUrl ''secret'', ?init)]"
    by (simp add: handler_def build_payload_def nullish_def Let_def)
  have k: "ok ?r"
    by (simp add: ok_def)
  have t: "text_path ?R = Str ''Paris''"
    by (simp add: text_path_def first_candidate_def attributions_def opt_def opt_index0_def nullish_def)
  have g: "attributions ?R = Arr [Obj [(''web'', Obj [(''uri'', Str ''http://x''), (''title'', Str ''X'')])], Null]"
    by (simp add: text_path_def first_candidate_def attributions_def opt_def opt_index0_def nullish_def)
  have s: "grounding_sources (first_candidate ?R) = Inl (TypeError (Cannot_read ''web'' Null))"
    by (simp add: grounding_sources_def first_candidate_def array_map_def to_source_def get_def
        opt_def opt_index0_def nullish_def)
  have "outcome ?h = Responded (send 500 (error_body ''Server error: TypeError''))"
    using handler_outcome_of_text [of ?d ?e ?f ?req "googleApiUrl ''secret''" ?init ?r ?R] c k t s
    by (simp add: message_def)
  with g show ?thesis by simp
qed

text \<open>
  Claim C4, amended. For a provider answer with a success status and a truthy text whose
  grounding attributions are an array: when no entry of the array is \<^verbatim>\<open>null\<close> or
  \<^verbatim>\<open>undefined\<close>, a grounding entry is retained in the emitted sources exactly when it has
  both a truthy URI and a truthy title, so that an entry that lacks either one (a URI
  without a title, a title without a URI, or neither) is filtered out; when some entry
  is \<^verbatim>\<open>null\<close> or \<^verbatim>\<open>undefined\<close>, no sources are emitted and nothing is retained: the handler
  responds with status 500 and \<^verbatim>\<open>{error: "Server error: <message>"}\<close>.
\<close>

theorem source_retained_iff:
  assumes "calls (handler describe env fetch req) = [(url, init)]"
    and "fetch url init = Inr r"
    and "ok r"
    and "read_json r = Inr result"
    and "truthy (text_path result)"
    and "attributions result = Arr as"
  shows "((\<forall>a\<in>set as. \<not> nullish a) \<longrightarrow>
      (\<exists>sources.
          outcome (handler describe env fetch req) =
            Responded (send 200 (Obj [(''text'', text_path result), (''sources'', Arr sources)]))
        \<and> (\<forall>s. s \<in> set sources \<longleftrightarrow>
              (\<exists>a\<in>set as. s = citation a \<and> truthy (opt (opt a ''web'') ''uri'')
                             \<and> truthy (opt (opt a ''web'') ''title'')))))
    \<and> ((\<exists>a\<in>set as. nullish a) \<longrightarrow>
      (\<exists>a\<in>set as. nullish a
        \<and> outcome (handler describe env fetch req) =
            Responded (send 500 (error_body
              (''Server error: '' @ describe (Cannot_read ''web'' a))))))"
proof (intro conjI impI)
  assume n: "\<forall>a\<in>set as. \<not> nullish a"
  have "grounding_sources (first_candidate result) = Inr (filter complete (map citation as))"
    using assms(6) n unfolding attributions_def
    by (intro grounding_sources_array [OF truthy_text_path(2) [OF assms(5)]]) simp_all
  then have "outcome (handler describe env fetch req) =
      Responded (send 200 (Obj [(''text'', text_path result),
        (''sources'', Arr (filter complete (map citation as)))]))"
    by (simp add: handler_outcome_of_text [OF assms(1-5)])
  moreover have "\<forall>s. s \<in> set (filter complete (map citation as)) \<longleftrightarrow>
      (\<exists>a\<in>set as. s = citation a \<and> truthy (opt (opt a ''web'') ''uri'')
                     \<and> truthy (opt (opt a ''web'') ''title''))"
    by (auto simp: complete_citation)
  ultimately show "\<exists>sources.
      outcome (handler describe env fetch req) =
        Responded (send 200 (Obj [(''text'', text_path result), (''sources'', Arr sources)]))
    \<and> (\<forall>s. s \<in> set sources \<longleftrightarrow>
          (\<exists>a\<in>set as. s = citation a \<and> truthy (opt (opt a ''web'') ''uri'')
                         \<and> truthy (opt (opt a ''web'') ''title'')))"
    by blast
next
  assume "\<exists>a\<in>set as. nullish a"
  with assms(6) have "\<exists>a\<in>set as. nullish a
      \<and> grounding_sources (first_candidate result) = Inl (TypeError (Cannot_read ''web'' a))"
    unfolding attributions_def
    by (intro grounding_sources_null_entry [OF truthy_text_path(2) [OF assms(5)]]) simp_all
  then obtain a where "a \<in> set as" "nullish a"
    "grounding_sources (first_candidate result) = Inl (TypeError (Cannot_read ''web'' a))"
    by blast
  then show "\<exists>a\<in>set as. nullish a
      \<and> outcome (handler describe env fetch req) =
          Responded (send 500 (error_body (''Server error: '' @ describe (Cannot_read ''web'' a))))"
    by (auto simp: handler_outcome_of_text [OF assms(1-5)] message_def)
qed

text \<open>
  An entry with both fields is among the sources, an entry with a title only is not;
  an array that starts with \<^verbatim>\<open>null\<close> gets the 500 of the \<^verbatim>\<open>catch\<close> block.
\<close>

theorem source_retained_iff_witness:
  "calls (handler (\<lambda>t. ''TypeError'') \<lparr>GEMINI_API_KEY = Some ''secret''\<rparr>
      (\<lambda>url init. Inr
       \<lparr>status = 200,
        read_text = Inr ''{\"candidates\":[{\"content\":{\"parts\":[{\"text\":\"Oslo\"}]},\"groundingMetadata\":{\"groundingAttributions\":[{\"web\":{\"uri\":\"https://example.org/a\",\"title\":\"A\"}},{\"web\":{\"title\":\"B\"}}]}}]}'',
        read_json = Inr (Obj [(''candidates'', Arr [Obj [(''content'', Obj [(''parts'', Arr [Obj [(''text'', Str ''Oslo'')]])]),
          (''groundingMetadata'', Obj [(''groundingAttributions'', Arr [Obj [(''web'', Obj [(''uri'', Str ''https://example.org/a''), (''title'', Str ''A'')])],
            Obj [(''web'', Obj [(''title'', Str ''B'')])]])])]])])\<rparr>)
      \<lparr>req_method = ''POST'', req_body = Obj [(''userQuery'', Str ''hello'')]\<rparr>)
    = [(googleApiUrl ''secret'',
        \<lparr>init_method = ''POST'', init_headers = [(''Content-Type'', ''application/json'')],
         init_body = JSON_stringify
           (Obj [(''contents'', Arr [Obj [(''parts'', Arr [Obj [(''text'', Str ''hello'')]])]])])\<rparr>)]
   \<and> ok \<lparr>status = 200,
        read_text = Inr ''{\"candidates\":[{\"content\":{\"parts\":[{\"text\":\"Oslo\"}]},\"groundingMetadata\":{\"groundingAttributions\":[{\"web\":{\"uri\":\"https://example.org/a\",\"title\":\"A\"}},{\"web\":{\"title\":\"B\"}}]}}]}'',
        read_json = Inr (Obj [(''candidates'', Arr [Obj [(''content'', Obj [(''parts'', Arr [Obj [(''text'', Str ''Oslo'')]])]),
          (''groundingMetadata'', Obj [(''groundingAttributions'', Arr [Obj [(''web'', Obj [(''uri'', Str ''https://example.org/a''), (''title'', Str ''A'')])],
            Obj [(''web'', Obj [(''title'', Str ''B'')])]])])]])])\<rparr>
   \<and> truthy (text_path (Obj [(''candidates'', Arr [Obj [(''content'', Obj [(''parts'', Arr [Obj [(''text'', Str ''Oslo'')]])]),
          (''groundingMetadata'', Obj [(''groundingAttributions'', Arr [Obj [(''web'', Obj [(''uri'', Str ''https://example.org/a''), (''title'', Str ''A'')])],
            Obj [(''web'', Obj [(''title'', Str ''B'')])]])])]])]))
   \<and> attributions (Obj [(''candidates'', Arr [Obj [(''content'', Obj [(''parts'', Arr [Obj [(''text'', Str ''Oslo'')]])]),
          (''groundingMetadata'', Obj [(''groundingAttributions'', Arr [Obj [(''web'', Obj [(''uri'', Str ''https://example.org/a''), (''title'', Str ''A'')])],
            Obj [(''web'', Obj [(''title'', Str ''B'')])]])])]])])
    = Arr [Obj [(''web'', Obj [(''uri'', Str ''https://example.org/a''), (''title'', Str ''A'')])],
           Obj [(''web'', Obj [(''title'', Str ''B'')])]]
   \<and> (\<exists>sources.
        outcome (handler (\<lambda>t. ''TypeError'') \<lparr>GEMINI_API_KEY = Some ''secret''\<rparr>
      (\<lambda>url init. Inr
       \<lparr>status = 200,
        read_text = Inr ''{\"candidates\":[{\"content\":{\"parts\":[{\"text\":\"Oslo\"}]},\"groundingMetadata\":{\"groundingAttributions\":[{\"web\":{\"uri\":\"https://example.org/a\",\"title\":\"A\"}},{\"web\":{\"title\":\"B\"}}]}}]}'',
        read_json = Inr (Obj [(''candidates'', Arr [Obj [(''content'', Obj [(''parts'', Arr [Obj [(''text'', Str ''Oslo'')]])]),
          (''groundingMetadata'', Obj [(''groundingAttributions'', Arr [Obj [(''web'', Obj [(''uri'', Str ''https://example.org/a''), (''title'', Str ''A'')])],
            Obj [(''web'', Obj [(''title'', Str ''B'')])]])])]])])\<rparr>)
      \<lparr>req_method = ''POST'', req_body = Obj [(''userQuery'', Str ''hello'')]\<rparr>)
        = Responded (send 200 (Obj [(''text'', Str ''Oslo''), (''sources'', Arr sources)]))
      \<and> citation (Obj [(''web'', Obj [(''uri'', Str ''https://example.org/a''), (''title'', Str ''A'')])]) \<in> set sources
      \<and> citation (Obj [(''web'', Obj [(''title'', Str ''B'')])]) \<notin> set sources)
   \<and> outcome (handler (\<lambda>t. ''TypeError'') \<lparr>GEMINI_API_KEY = Some ''secret''\<rparr>
      (\<lambda>url init. Inr
       \<lparr>status = 200,
        read_text = Inr ''{\"candidates\":[{\"content\":{\"parts\":[{\"text\":\"Oslo\"}]},\"groundingMetadata\":{\"groundingAttributions\":[null,{\"web\":{\"uri\":\"https://example.org/a\",\"title\":\"A\"}}]}}]}'',
        read_json = Inr (Obj [(''candidates'', Arr [Obj [(''content'', Obj [(''parts'', Arr [Obj [(''text'', Str ''Oslo'')]])]),
          (''groundingMetadata'', Obj [(''groundingAttributions'', Arr [Null, Obj [(''web'', Obj [(''uri'', Str ''https://example.org/a''), (''title'', Str ''A'')])]])])]])])\<rparr>)
      \<lparr>req_method = ''POST'', req_body = Obj [(''userQuery'', Str ''hello'')]\<rparr>)
    = Responded (send 500 (error_body ''Server error: TypeError''))"
proof -
  let ?d = "\<lambda>t::type_error. ''TypeError''"
  let ?e = "\<lparr>GEMINI_API_KEY = Some ''secret''\<rparr>"
  let ?req = "\<lparr>req_method = ''POST'', req_body = Obj [(''userQuery'', Str ''hello'')]\<rparr>"
  let ?init = "\<lparr>init_method = ''POST'', init_headers = [(''Content-Type'', ''application/json'')],
         init_body = JSON_stringify
           (Obj [(''contents'', Arr [Obj [(''parts'', Arr [Obj [(''text'', Str ''hello'')]])]])])\<rparr>"
  let ?r = "\<lparr>status = 200,
        read_text = Inr ''{\"candidates\":[{\"content\":{\"parts\":[{\"text\":\"Oslo\"}]},\"groundingMetadata\":{\"groundingAttributions\":[{\"web\":{\"uri\":\"https://example.org/a\",\"title\":\"A\"}},{\"web\":{\"title\":\"B\"}}]}}]}'',
        read_json = Inr (Obj [(''candidates'', Arr [Obj [(''content'', Obj [(''parts'', Arr [Obj [(''text'', Str ''Oslo'')]])]),
          (''groundingMetadata'', Obj [(''groundingAttributions'', Arr [Obj [(''web'', Obj [(''uri'', Str ''https://example.org/a''), (''title'', Str ''A'')])],
            Obj [(''web'', Obj [(''title'', Str ''B'')])]])])]])])\<rparr>"
  let ?R = "Obj [(''candidates'', Arr [Obj [(''content'', Obj [(''parts'', Arr [Obj [(''text'', Str ''Oslo'')]])]),
          (''groundingMetadata'', Obj [(''groundingAttributions'', Arr [Obj [(''web'', Obj [(''uri'', Str ''https://example.org/a''), (''title'', Str ''A'')])],
            Obj [(''web'', Obj [(''title'', Str ''B'')])]])])]])]"
  let ?f = "\<lambda>(url::string) (init::fetch_init). (Inr ?r :: exn + provider_response)"
  let ?h = "handler ?d ?e ?f ?req"
  have c: "calls ?h = [(googleApiUrl ''secret'', ?init)]"
    by (simp add: handler_def build_payload_def nullish_def Let_def)
  have k: "ok ?r"
    by (simp add: ok_def)
  have t: "text_path ?R = Str ''Oslo''"
    by (simp add: text_path_def first_candidate_def attributions_def opt_def opt_index0_def nullish_def)
  have g: "attributions ?R = Arr [Obj [(''web'', Obj [(''uri'', Str ''https://example.org/a''), (''title'', Str ''A'')])], Obj [(''web'', Obj [(''title'', Str ''B'')])]]"
    by (simp add: text_path_def first_candidate_def attributions_def opt_def opt_index0_def nullish_def)
  have "\<exists>sources.
      outcome ?h = Responded (send 200 (Obj [(''text'', text_path ?R), (''sources'', Arr sources)]))
    \<and> (\<forall>s. s \<in> set sources \<longleftrightarrow>
          (\<exists>a\<in>set [Obj [(''web'', Obj [(''uri'', Str ''https://example.org/a''), (''title'', Str ''A'')])], Obj [(''web'', Obj [(''title'', Str ''B'')])]].
             s = citation a \<and> truthy (opt (opt a ''web'') ''uri'')
                           \<and> truthy (opt (opt a ''web'') ''title'')))"
    using c k t g
      source_retained_iff [of ?d ?e ?f ?req "googleApiUrl ''secret''" ?init ?r ?R
        "[Obj [(''web'', Obj [(''uri'', Str ''https://example.org/a''), (''title'', Str ''A'')])], Obj [(''web'', Obj [(''title'', Str ''B'')])]]"]
    by (simp add: nullish_def)
  then obtain sources where
    o: "outcome ?h = Responded (send 200 (Obj [(''text'', text_path ?R), (''sources'', Arr sources)]))"
    and m: "\<And>s. s \<in> set sources \<longleftrightarrow>
          (\<exists>a\<in>set [Obj [(''web'', Obj [(''uri'', Str ''https://example.org/a''), (''title'', Str ''A'')])], Obj [(''web'', Obj [(''title'', Str ''B'')])]].
             s = citation a \<and> truthy (opt (opt a ''web'') ''uri'')
                           \<and> truthy (opt (opt a ''web'') ''title''))"
    by blast
  have i: "citation (Obj [(''web'', Obj [(''uri'', Str ''https://example.org/a''), (''title'', Str ''A'')])]) \<in> set sources"
    by (simp add: m opt_def nullish_def)
  have n: "citation (Obj [(''web'', Obj [(''title'', Str ''B'')])]) \<notin> set sources"
    by (simp add: m citation_def opt_def nullish_def)
  from o t have "outcome ?h = Responded (send 200 (Obj [(''text'', Str ''Oslo''), (''sources'', Arr sources)]))"
    by simp
  with i n have ex: "\<exists>sources.
        outcome ?h = Responded (send 200 (Obj [(''text'', Str ''Oslo''), (''sources'', Arr sources)]))
      \<and> citation (Obj [(''web'', Obj [(''uri'', Str ''https://example.org/a''), (''title'', Str ''A'')])]) \<in> set sources
      \<and> citation (Obj [(''web'', Obj [(''title'', Str ''B'')])]) \<notin> set sources"
    by blast
  let ?r' = "\<lparr>status = 200,
        read_text = Inr ''{\"candidates\":[{\"content\":{\"parts\":[{\"text\":\"Oslo\"}]},\"groundingMetadata\":{\"groundingAttributions\":[null,{\"web\":{\"uri\":\"https://example.org/a\",\"title\":\"A\"}}]}}]}'',
        read_json = Inr (Obj [(''candidates'', Arr [Obj [(''content'', Obj [(''parts'', Arr [Obj [(''text'', Str ''Oslo'')]])]),
          (''groundingMetadata'', Obj [(''groundingAttributions'', Arr [Null, Obj [(''web'', Obj [(''uri'', Str ''https://example.org/a''), (''title'', Str ''A'')])]])])]])])\<rparr>"
  let ?R' = "Obj [(''candidates'', Arr [Obj [(''content'', Obj [(''parts'', Arr [Obj [(''text'', Str ''Oslo'')]])]),
          (''groundingMetadata'', Obj [(''groundingAttributions'', Arr [Null, Obj [(''web'', Obj [(''uri'', Str ''https://example.org/a''), (''title'', Str ''A'')])]])])]])]"
  let ?f' = "\<lambda>(url::string) (init::fetch_init). (Inr ?r' :: exn + provider_response)"
  have c': "calls (handler ?d ?e ?f' ?req) = [(googleApiUrl ''secret'', ?init)]"
    by (simp add: handler_def build_payload_def nullish_def Let_def)
  have k': "ok ?r'"
    by (simp add: ok_def)
  have t': "text_path ?R' = Str ''Oslo''"
    by (simp add: text_path_def first_candidate_def attributions_def opt_def opt_index0_def nullish_def)
  have g': "attributions ?R' = Arr [Null, Obj [(''web'', Obj [(''uri'', Str ''https://example.org/a''), (''title'', Str ''A'')])]]"
    by (simp add: text_path_def first_candidate_def attributions_def opt_def opt_index0_def nullish_def)
  have x': "outcome (handler ?d ?e ?f' ?req) = Responded (send 500 (error_body ''Server error: TypeError''))"
    using source_retained_iff [of ?d ?e ?f' ?req "googleApiUrl ''secret''" ?init ?r' ?R'
        "[Null, Obj [(''web'', Obj [(''uri'', Str ''https://example.org/a''), (''title'', Str ''A'')])]]"]
      c' k' t' g'
    by (simp add: nullish_def)
  from c k t g ex x' show ?thesis by simp
qed

text \<open>
  Claim C4 as it is written keeps an entry that has a URI and no title, and one that has
  a title and no URI. The handler drops both: the sources of this answer are empty.
\<close>

theorem source_retained_counterexample:
  "attributions (Obj [(''candidates'', Arr [Obj [(''content'', Obj [(''parts'', Arr [Obj [(''text'', Str ''Paris'')]])]),
          (''groundingMetadata'', Obj [(''groundingAttributions'', Arr [Obj [(''web'', Obj [(''uri'', Str ''http://y'')])],
            Obj [(''web'', Obj [(''title'', Str ''Z'')])]])])]])])
    = Arr [Obj [(''web'', Obj [(''uri'', Str ''http://y'')])],
           Obj [(''web'', Obj [(''title'', Str ''Z'')])]]
   \<and> outcome (handler (\<lambda>t. ''TypeError'') \<lparr>GEMINI_API_KEY = Some ''secret''\<rparr>
      (\<lambda>url init. Inr
       \<lparr>status = 200,
        read_text = Inr ''{\"candidates\":[{\"content\":{\"parts\":[{\"text\":\"Paris\"}]},\"groundingMetadata\":{\"groundingAttributions\":[{\"web\":{\"uri\":\"http://y\"}},{\"web\":{\"title\":\"Z\"}}]}}]}'',
        read_json = Inr (Obj [(''candidates'', Arr [Obj [(''content'', Obj [(''parts'', Arr [Obj [(''text'', Str ''Paris'')]])]),
          (''groundingMetadata'', Obj [(''groundingAttributions'', Arr [Obj [(''web'', Obj [(''uri'', Str ''http://y'')])],
            Obj [(''web'', Obj [(''title'', Str ''Z'')])]])])]])])\<rparr>)
      \<lparr>req_method = ''POST'', req_body = Obj [(''userQuery'', Str ''hello'')]\<rparr>)
    = Responded (send 200 (Obj [(''text'', Str ''Paris''), (''sources'', Arr [])]))"
proof -
  let ?d = "\<lambda>t::type_error. ''TypeError''"
  let ?e = "\<lparr>GEMINI_API_KEY = Some ''secret''\<rparr>"
  let ?req = "\<lparr>req_method = ''POST'', req_body = Obj [(''userQuery'', Str ''hello'')]\<rparr>"
  let ?init = "\<lparr>init_method = ''POST'', init_headers = [(''Content-Type'', ''application/json'')],
         init_body = JSON_stringify
           (Obj [(''contents'', Arr [Obj [(''parts'', Arr [Obj [(''text'', Str ''hello'')]])]])])\<rparr>"
  let ?r = "\<lparr>status = 200,
        read_text = Inr ''{\"candidates\":[{\"content\":{\"parts\":[{\"text\":\"Paris\"}]},\"groundingMetadata\":{\"groundingAttributions\":[{\"web\":{\"uri\":\"http://y\"}},{\"web\":{\"title\":\"Z\"}}]}}]}'',
        read_json = Inr (Obj [(''candidates'', Arr [Obj [(''content'', Obj [(''parts'', Arr [Obj [(''text'', Str ''Paris'')]])]),
          (''groundingMetadata'', Obj [(''groundingAttributions'', Arr [Obj [(''web'', Obj [(''uri'', Str ''http://y'')])],
            Obj [(''web'', Obj [(''title'', Str ''Z'')])]])])]])])\<rparr>"
  let ?R = "Obj [(''candidates'', Arr [Obj [(''content'', Obj [(''parts'', Arr [Obj [(''text'', Str ''Paris'')]])]),
          (''groundingMetadata'', Obj [(''groundingAttributions'', Arr [Obj [(''web'', Obj [(''uri'', Str ''http://y'')])],
            Obj [(''web'', Obj [(''title'', Str ''Z'')])]])])]])]"
  let ?f = "\<lambda>(url::string) (init::fetch_init). (Inr ?r :: exn + provider_response)"
  let ?h = "handler ?d ?e ?f ?req"
  have c: "calls ?h = [(googleApiUrl ''secret'', ?init)]"
    by (simp add: handler_def build_payload_def nullish_def Let_def)
  have k: "ok ?r"
    by (simp add: ok_def)
  have t: "text_path ?R = Str ''Paris''"
    by (simp add: text_path_def first_candidate_def attributions_def opt_def opt_index0_def nullish_def)
  have g: "attributions ?R = Arr [Obj [(''web'', Obj [(''uri'', Str ''http://y'')])], Obj [(''web'', Obj [(''title'', Str ''Z'')])]]"
    by (simp add: text_path_def first_candidate_def attributions_def opt_def opt_index0_def nullish_def)
  have "grounding_sources (first_candidate ?R) =
      Inr (filter complete (map citation [Obj [(''web'', Obj [(''uri'', Str ''http://y'')])], Obj [(''web'', Obj [(''title'', Str ''Z'')])]]))"
    using g unfolding attributions_def
    by (intro grounding_sources_array) (simp_all add: first_candidate_def opt_def opt_index0_def nullish_def)
  then have s: "grounding_sources (first_candidate ?R) = Inr []"
    by (simp add: citation_def complete_def opt_def nullish_def)
  have "outcome ?h = Responded (send 200 (Obj [(''text'', Str ''Paris''), (''sources'', Arr [])]))"
    using handler_outcome_of_text [of ?d ?e ?f ?req "googleApiUrl ''secret''" ?init ?r ?R] c k t s
    by simp
  with g show ?thesis by simp
qed

text \<open>
  Claim C9. In every response with status 200 that the handler sends, the body is
  \<^verbatim>\<open>{text, sources}\<close> and every element of \<^verbatim>\<open>sources\<close> has a truthy \<^verbatim>\<open>uri\<close> and a truthy
  \<^verbatim>\<open>title\<close>: neither is \<^verbatim>\<open>undefined\<close>, \<^verbatim>\<open>null\<close> or the empty string.
\<close>

theorem emitted_sources_complete:
  assumes "outcome (handler describe env fetch req) = Responded response"
    and "status_code response = 200"
  shows "\<exists>text sources.
      json_body response = Obj [(''text'', text), (''sources'', Arr sources)]
    \<and> (\<forall>s\<in>set sources.
          truthy (member s ''uri'') \<and> truthy (member s ''title'')
        \<and> member s ''uri'' \<notin> {Undefined, Null, Str ''''}
        \<and> member s ''title'' \<notin> {Undefined, Null, Str ''''})"
proof -
  have "\<exists>result. respond_to_result result = Inr response"
    using assms
    by (auto simp: handler_def Let_def try_block_def seq_def send_def ok_def
        split: if_splits option.splits sum.splits)
  then obtain result where "respond_to_result result = Inr response" ..
  from respond_to_result_200 [OF this assms(2)] obtain answer sources
    where b: "json_body response = Obj [(''text'', answer), (''sources'', Arr sources)]"
      and g: "grounding_sources (opt_index0 (member result ''candidates'')) = Inr sources"
    by blast
  have "\<forall>s\<in>set sources. complete s"
    using g by (rule grounding_sources_complete)
  then have "\<forall>s\<in>set sources.
          truthy (member s ''uri'') \<and> truthy (member s ''title'')
        \<and> member s ''uri'' \<notin> {Undefined, Null, Str ''''}
        \<and> member s ''title'' \<notin> {Undefined, Null, Str ''''}"
    by (auto simp: complete_def)
  with b show ?thesis by blast
qed

text \<open>
  A grounded answer: the one source of the 200 response has both fields.
\<close>

theorem emitted_sources_complete_witness:
  "outcome (handler (\<lambda>t. ''TypeError'') \<lparr>GEMINI_API_KEY = Some ''secret''\<rparr>
      (\<lambda>url init. Inr
       \<lparr>status = 200,
        read_text = Inr ''{\"candidates\":[{\"content\":{\"parts\":[{\"text\":\"Rome\"}]},\"groundingMetadata\":{\"groundingAttributions\":[{\"web\":{\"uri\":\"https://example.com\",\"title\":\"Example\"}}]}}]}'',
        read_json = Inr (Obj [(''candidates'', Arr [Obj [(''content'', Obj [(''parts'', Arr [Obj [(''text'', Str ''Rome'')]])]),
          (''groundingMetadata'', Obj [(''groundingAttributions'', Arr [Obj [(''web'', Obj [(''uri'', Str ''https://example.com''), (''title'', Str ''Example'')])]])])]])])\<rparr>)
      \<lparr>req_method = ''POST'', req_body = Obj [(''userQuery'', Str ''hello'')]\<rparr>)
    = Responded (send 200 (Obj [(''text'', Str ''Rome''), (''sources'', Arr [Obj [(''uri'', Str ''https://example.com''), (''title'', Str ''Example'')]])]))
   \<and> status_code (send 200 (Obj [(''text'', Str ''Rome''), (''sources'', Arr [Obj [(''uri'', Str ''https://example.com''), (''title'', Str ''Example'')]])])) = 200
   \<and> truthy (member (Obj [(''uri'', Str ''https://example.com''), (''title'', Str ''Example'')]) ''uri'')
   \<and> truthy (member (Obj [(''uri'', Str ''https://example.com''), (''title'', Str ''Example'')]) ''title'')"
proof -
  let ?d = "\<lambda>t::type_error. ''TypeError''"
  let ?e = "\<lparr>GEMINI_API_KEY = Some ''secret''\<rparr>"
  let ?req = "\<lparr>req_method = ''POST'', req_body = Obj [(''userQuery'', Str ''hello'')]\<rparr>"
  let ?init = "\<lparr>init_method = ''POST'', init_headers = [(''Content-Type'', ''application/json'')],
         init_body = JSON_stringify
           (Obj [(''contents'', Arr [Obj [(''parts'', Arr [Obj [(''text'', Str ''hello'')]])]])])\<rparr>"
  let ?r = "\<lparr>status = 200,
        read_text = Inr ''{\"candidates\":[{\"content\":{\"parts\":[{\"text\":\"Rome\"}]},\"groundingMetadata\":{\"groundingAttributions\":[{\"web\":{\"uri\":\"https://example.com\",\"title\":\"Example\"}}]}}]}'',
        read_json = Inr (Obj [(''candidates'', Arr [Obj [(''content'', Obj [(''parts'', Arr [Obj [(''text'', Str ''Rome'')]])]),
          (''groundingMetadata'', Obj [(''groundingAttributions'', Arr [Obj [(''web'', Obj [(''uri'', Str ''https://example.com''), (''title'', Str ''Example'')])]])])]])])\<rparr>"
  let ?R = "Obj [(''candidates'', Arr [Obj [(''content'', Obj [(''parts'', Arr [Obj [(''text'', Str ''Rome'')]])]),
          (''groundingMetadata'', Obj [(''groundingAttributions'', Arr [Obj [(''web'', Obj [(''uri'', Str ''https://example.com''), (''title'', Str ''Example'')])]])])]])]"
  let ?f = "\<lambda>(url::string) (init::fetch_init). (Inr ?r :: exn + provider_response)"
  let ?h = "handler ?d ?e ?f ?req"
  have c: "calls ?h = [(googleApiUrl ''secret'', ?init)]"
    by (simp add: handler_def build_payload_def nullish_def Let_def)
  have k: "ok ?r"
    by (simp add: ok_def)
  have t: "text_path ?R = Str ''Rome''"
    by (simp add: text_path_def first_candidate_def attributions_def opt_def opt_index0_def nullish_def)
  have g: "attributions ?R = Arr [Obj [(''web'', Obj [(''uri'', Str ''https://example.com''), (''title'', Str ''Example'')])]]"
    by (simp add: text_path_def first_candidate_def attributions_def opt_def opt_index0_def nullish_def)
  have "grounding_sources (first_candidate ?R) = Inr (filter complete (map citation [Obj [(''web'', Obj [(''uri'', Str ''https://example.com''), (''title'', Str ''Example'')])]]))"
    using g unfolding attributions_def
    by (intro grounding_sources_array) (simp_all add: first_candidate_def opt_def opt_index0_def nullish_def)
  then have s: "grounding_sources (first_candidate ?R) = Inr [Obj [(''uri'', Str ''https://example.com''), (''title'', Str ''Example'')]]"
    by (simp add: citation_def complete_def opt_def nullish_def)
  have o: "outcome ?h = Responded (send 200 (Obj [(''text'', Str ''Rome''), (''sources'', Arr [Obj [(''uri'', Str ''https://example.com''), (''title'', Str ''Example'')]])]))"
    using handler_outcome_of_text [of ?d ?e ?f ?req "googleApiUrl ''secret''" ?init ?r ?R] c k t s
    by simp
  have z: "status_code (send 200 (Obj [(''text'', Str ''Rome''), (''sources'', Arr [Obj [(''uri'', Str ''https://example.com''), (''title'', Str ''Example'')]])])) = 200"
    by (simp add: send_def)
  from emitted_sources_complete [OF o z] obtain answer sources where
    b: "json_body (send 200 (Obj [(''text'', Str ''Rome''), (''sources'', Arr [Obj [(''uri'', Str ''https://example.com''), (''title'', Str ''Example'')]])])) = Obj [(''text'', answer), (''sources'', Arr sources)]"
    and q: "\<forall>s\<in>set sources. truthy (member s ''uri'') \<and> truthy (member s ''title'')"
    by blast
  from b have "sources = [Obj [(''uri'', Str ''https://example.com''), (''title'', Str ''Example'')]]"
    by (simp add: send_def)
  with q have "truthy (member (Obj [(''uri'', Str ''https://example.com''), (''title'', Str ''Example'')]) ''uri'') \<and> truthy (member (Obj [(''uri'', Str ''https://example.com''), (''title'', Str ''Example'')]) ''title'')"
    by simp
  with o z show ?thesis by simp
qed

end
